theory Spec2Isabelle
  imports Complex_Main "HOL-Library.Word"
begin

section \<open>Vectors and matrices (the GLM operations the scene code calls)\<close>

text \<open>
  The C++ code computes with \<open>float\<close>. Throughout this development a \<open>float\<close> is
  idealised as a real number: rounding is outside the model, and a literal such as
  \<open>0.1f\<close> stands for the real number it denotes in decimal. GLM is an external
  library; the functions below follow its column-major \<open>mat4\<close> (a matrix is its four
  columns, \<open>m[i]\<close> is column \<open>i\<close>) and the formulas of \<open>glm/ext/matrix_transform.inl\<close>
  and \<open>glm/ext/matrix_clip_space.inl\<close> (right-handed, depth range \<open>-1..1\<close>, the default).
\<close>

type_synonym vec2 = "real \<times> real"
type_synonym vec3 = "real \<times> real \<times> real"
type_synonym vec4 = "real \<times> real \<times> real \<times> real"
type_synonym mat4 = "vec4 \<times> vec4 \<times> vec4 \<times> vec4"

definition vec4_scale :: "vec4 \<Rightarrow> real \<Rightarrow> vec4" where
  "vec4_scale v k = (case v of (x, y, z, w) \<Rightarrow> (x * k, y * k, z * k, w * k))"

definition vec4_add :: "vec4 \<Rightarrow> vec4 \<Rightarrow> vec4" where
  "vec4_add a b =
     (case a of (ax, ay, az, aw) \<Rightarrow> case b of (bx, by, bz, bw) \<Rightarrow>
        (ax + bx, ay + by, az + bz, aw + bw))"

definition vec3_add :: "vec3 \<Rightarrow> vec3 \<Rightarrow> vec3" where
  "vec3_add a b = (case a of (ax, ay, az) \<Rightarrow> case b of (bx, by, bz) \<Rightarrow> (ax + bx, ay + by, az + bz))"

text \<open>\<open>glm::mat4(1.0f)\<close>: the identity matrix.\<close>

definition mat4_identity :: mat4 where
  "mat4_identity = ((1, 0, 0, 0), (0, 1, 0, 0), (0, 0, 1, 0), (0, 0, 0, 1))"

text \<open>Matrix times column vector, and \<open>operator*\<close> on two \<open>mat4\<close> values.\<close>

definition mat4_apply :: "mat4 \<Rightarrow> vec4 \<Rightarrow> vec4" where
  "mat4_apply m v =
     (case m of (m0, m1, m2, m3) \<Rightarrow> case v of (x, y, z, w) \<Rightarrow>
        vec4_add (vec4_add (vec4_add (vec4_scale m0 x) (vec4_scale m1 y)) (vec4_scale m2 z))
          (vec4_scale m3 w))"

definition mat4_mul :: "mat4 \<Rightarrow> mat4 \<Rightarrow> mat4" where
  "mat4_mul a b =
     (case b of (b0, b1, b2, b3) \<Rightarrow>
        (mat4_apply a b0, mat4_apply a b1, mat4_apply a b2, mat4_apply a b3))"

text \<open>\<open>glm::radians\<close>: degrees to radians.\<close>

definition radians :: "real \<Rightarrow> real" where
  "radians degrees = degrees * pi / 180"

text \<open>\<open>glm::normalize\<close> on a \<open>vec3\<close>: \<open>v * inversesqrt(dot(v, v))\<close>.\<close>

definition normalize :: "vec3 \<Rightarrow> vec3" where
  "normalize v =
     (case v of (x, y, z) \<Rightarrow>
        let n = sqrt (x * x + y * y + z * z) in (x / n, y / n, z / n))"

text \<open>\<open>glm::translate(m, v)\<close>: the last column becomes \<open>m[0]*v[0] + m[1]*v[1] + m[2]*v[2] + m[3]\<close>.\<close>

definition translate :: "mat4 \<Rightarrow> vec3 \<Rightarrow> mat4" where
  "translate m v =
     (case m of (m0, m1, m2, m3) \<Rightarrow> case v of (x, y, z) \<Rightarrow>
        (m0, m1, m2,
         vec4_add (vec4_add (vec4_add (vec4_scale m0 x) (vec4_scale m1 y)) (vec4_scale m2 z)) m3))"

text \<open>\<open>glm::scale(m, v)\<close>: the first three columns are scaled by the components of \<open>v\<close>.\<close>

definition scale :: "mat4 \<Rightarrow> vec3 \<Rightarrow> mat4" where
  "scale m v =
     (case m of (m0, m1, m2, m3) \<Rightarrow> case v of (x, y, z) \<Rightarrow>
        (vec4_scale m0 x, vec4_scale m1 y, vec4_scale m2 z, m3))"

text \<open>
  \<open>glm::rotate(m, angle, v)\<close>: \<open>Rotate\<close> is the rotation by \<open>angle\<close> about the
  normalised axis; \<open>rIJ\<close> below is GLM's \<open>Rotate[I][J]\<close> (column \<open>I\<close>, row \<open>J\<close>).
\<close>

definition rotate :: "mat4 \<Rightarrow> real \<Rightarrow> vec3 \<Rightarrow> mat4" where
  "rotate m angle v =
     (let c = cos angle; s = sin angle in
      case normalize v of (ax, ay, az) \<Rightarrow>
      let tx = (1 - c) * ax; ty = (1 - c) * ay; tz = (1 - c) * az;
          r00 = c + tx * ax;      r01 = tx * ay + s * az; r02 = tx * az - s * ay;
          r10 = ty * ax - s * az; r11 = c + ty * ay;      r12 = ty * az + s * ax;
          r20 = tz * ax + s * ay; r21 = tz * ay - s * ax; r22 = c + tz * az
      in case m of (m0, m1, m2, m3) \<Rightarrow>
        (vec4_add (vec4_add (vec4_scale m0 r00) (vec4_scale m1 r01)) (vec4_scale m2 r02),
         vec4_add (vec4_add (vec4_scale m0 r10) (vec4_scale m1 r11)) (vec4_scale m2 r12),
         vec4_add (vec4_add (vec4_scale m0 r20) (vec4_scale m1 r21)) (vec4_scale m2 r22),
         m3))"

text \<open>\<open>glm::ortho(left, right, bottom, top, zNear, zFar)\<close>.\<close>

definition ortho :: "real \<Rightarrow> real \<Rightarrow> real \<Rightarrow> real \<Rightarrow> real \<Rightarrow> real \<Rightarrow> mat4" where
  "ortho left right bottom top' zNear zFar =
     ((2 / (right - left), 0, 0, 0),
      (0, 2 / (top' - bottom), 0, 0),
      (0, 0, - 2 / (zFar - zNear), 0),
      (- (right + left) / (right - left), - (top' + bottom) / (top' - bottom),
       - (zFar + zNear) / (zFar - zNear), 1))"

text \<open>\<open>glm::perspective(fovy, aspect, zNear, zFar)\<close>.\<close>

definition perspective :: "real \<Rightarrow> real \<Rightarrow> real \<Rightarrow> real \<Rightarrow> mat4" where
  "perspective fovy aspect zNear zFar =
     (let tanHalfFovy = tan (fovy / 2) in
      ((1 / (aspect * tanHalfFovy), 0, 0, 0),
       (0, 1 / tanHalfFovy, 0, 0),
       (0, 0, - (zFar + zNear) / (zFar - zNear), - 1),
       (0, 0, - (2 * zFar * zNear) / (zFar - zNear), 0)))"

section \<open>Calls to the external collaborators\<close>

text \<open>
  The scene and view managers act on the world only through the shader manager, OpenGL,
  the image decoder, the mesh library, GLFW and the console. Each such call is recorded,
  in program order, in a log kept beside the object's fields.
\<close>

type_synonym GLuint = "32 word"

datatype uniform =
    UInt int
  | UFloat real
  | UVec2 vec2
  | UVec3 vec3
  | UVec4 vec4
  | UMat4 mat4
  | USampler2D int

datatype mesh = Plane | Cylinder | Cone | Sphere

datatype pixel_format = RGB | RGBA

datatype call =
    ShaderUse
  | ShaderSet string uniform
  | StbiSetFlipVerticallyOnLoad bool
  | StbiLoad string
  | StbiImageFree
  | GlGenTextures GLuint
  | GlBindTexture GLuint
  | GlTexParameters
  | GlTexImage2D pixel_format int int
  | GlGenerateMipmap
  | GlActiveTexture int
  | GlDeleteTextures GLuint
  | GlEnableDepthTest
  | GlDepthFuncLequal
  | GlClear
  | GlfwGetTime
  | GlfwSetWindowShouldClose
  | LoadMesh mesh
  | DrawMesh mesh
  | CoutLoaded string int int int
  | CoutNotImplemented int
  | CoutCouldNotLoad string

datatype error = NullPointerDereference | IndexOutOfBounds

text \<open>The names of the uniforms (the anonymous namespace of SceneManager.cpp).\<close>

definition g_ModelName :: string where "g_ModelName = ''model''"
definition g_ColorValueName :: string where "g_ColorValueName = ''objectColor''"
definition g_TextureValueName :: string where "g_TextureValueName = ''objectTexture''"
definition g_UseTextureName :: string where "g_UseTextureName = ''bUseTexture''"
definition g_UseLightingName :: string where "g_UseLightingName = ''bUseLighting''"
definition g_LightColorName :: string where "g_LightColorName = ''lightColor''"
definition g_MaterialAmbientColor :: string where "g_MaterialAmbientColor = ''material.ambientColor''"
definition g_MaterialDiffuseColor :: string where "g_MaterialDiffuseColor = ''material.diffuseColor''"
definition g_MaterialSpecularColor :: string where "g_MaterialSpecularColor = ''material.specularColor''"
definition g_MaterialShininess :: string where "g_MaterialShininess = ''material.shininess''"
definition g_ViewPosition :: string where "g_ViewPosition = ''viewPos''"

section \<open>The scene manager's data\<close>

record TEXTURE_INFO =
  ID :: GLuint
  tag :: string

definition TEXTURE_INFO_new :: TEXTURE_INFO where
  "TEXTURE_INFO_new = \<lparr>ID = 0, tag = ''''\<rparr>"

record LIGHT_SOURCE =
  position :: vec3
  ambientColor :: vec3
  diffuseColor :: vec3
  specularColor :: vec3
  focalStrength :: real
  specularIntensity :: real

definition LIGHT_SOURCE_new :: LIGHT_SOURCE where
  "LIGHT_SOURCE_new =
     \<lparr>position = (0, 0, 0), ambientColor = (0, 0, 0), diffuseColor = (0, 0, 0),
      specularColor = (0, 0, 0), focalStrength = 1, specularIntensity = 1\<rparr>"

text \<open>
  \<open>m_pShaderManager\<close> is a pointer that the code only ever tests for null and
  dereferences: the field records whether it is non-null. \<open>m_textureIDs\<close> is the array
  of 128 entries and \<open>m_lightSources\<close> the array of 4; \<open>calls\<close> is the log of calls made
  so far, oldest first.
\<close>

record SceneManager =
  m_pShaderManager :: bool
  m_loadedTextures :: int
  m_textureIDs :: "TEXTURE_INFO list"
  m_lightSources :: "LIGHT_SOURCE list"
  calls :: "call list"

definition SceneManager_new :: "bool \<Rightarrow> SceneManager" where
  "SceneManager_new pShaderManager =
     \<lparr>m_pShaderManager = pShaderManager, m_loadedTextures = 0,
      m_textureIDs = replicate 128 TEXTURE_INFO_new,
      m_lightSources = replicate 4 LIGHT_SOURCE_new, calls = []\<rparr>"

definition emit :: "call list \<Rightarrow> SceneManager \<Rightarrow> SceneManager" where
  "emit cs s = s\<lparr>calls := calls s @ cs\<rparr>"

text \<open>
  A call through \<open>m_pShaderManager\<close> with no test before it: undefined behaviour on a
  null pointer, modelled as the error \<open>NullPointerDereference\<close>.
\<close>

definition shader_call :: "call list \<Rightarrow> SceneManager \<Rightarrow> error + SceneManager" where
  "shader_call cs s =
     (if m_pShaderManager s then Inr (emit cs s) else Inl NullPointerDereference)"

text \<open>Statements in sequence; the first error ends the run.\<close>

fun seq :: "('s \<Rightarrow> error + 's) list \<Rightarrow> 's \<Rightarrow> error + 's" where
  "seq [] s = Inr s"
| "seq (a # as) s = (case a s of Inl e \<Rightarrow> Inl e | Inr s' \<Rightarrow> seq as s')"

section \<open>SetTransformations\<close>

definition model_matrix :: "vec3 \<Rightarrow> real \<Rightarrow> real \<Rightarrow> real \<Rightarrow> vec3 \<Rightarrow> mat4" where
  "model_matrix scaleXYZ XrotationDegrees YrotationDegrees ZrotationDegrees positionXYZ =
     mat4_mul (mat4_mul (mat4_mul (mat4_mul
       (translate mat4_identity positionXYZ)
       (rotate mat4_identity (radians XrotationDegrees) (1, 0, 0)))
       (rotate mat4_identity (radians YrotationDegrees) (0, 1, 0)))
       (rotate mat4_identity (radians ZrotationDegrees) (0, 0, 1)))
       (scale mat4_identity scaleXYZ)"

definition SetTransformations ::
  "vec3 \<Rightarrow> real \<Rightarrow> real \<Rightarrow> real \<Rightarrow> vec3 \<Rightarrow> SceneManager \<Rightarrow> error + SceneManager" where
  "SetTransformations scaleXYZ XrotationDegrees YrotationDegrees ZrotationDegrees positionXYZ s =
     (let model = model_matrix scaleXYZ XrotationDegrees YrotationDegrees ZrotationDegrees
                    positionXYZ
      in if m_pShaderManager s then Inr (emit [ShaderSet g_ModelName (UMat4 model)] s)
         else Inr s)"

section \<open>Flat colour, UV scale and light colour\<close>

definition SetShaderColor :: "real \<Rightarrow> real \<Rightarrow> real \<Rightarrow> real \<Rightarrow> SceneManager \<Rightarrow> error + SceneManager" where
  "SetShaderColor redColorValue greenColorValue blueColorValue alphaValue s =
     (let currentColor = (redColorValue, greenColorValue, blueColorValue, alphaValue)
      in if m_pShaderManager s
         then Inr (emit [ShaderSet g_UseTextureName (UInt 0),
                         ShaderSet g_ColorValueName (UVec4 currentColor)] s)
         else Inr s)"

definition SetTextureUVScale :: "real \<Rightarrow> real \<Rightarrow> SceneManager \<Rightarrow> error + SceneManager" where
  "SetTextureUVScale u v s =
     (if m_pShaderManager s then Inr (emit [ShaderSet ''UVscale'' (UVec2 (u, v))] s) else Inr s)"

definition SetLightColor :: "real \<Rightarrow> real \<Rightarrow> real \<Rightarrow> real \<Rightarrow> SceneManager \<Rightarrow> error + SceneManager" where
  "SetLightColor red green blue alpha s =
     (let lightColor = (red, green, blue, alpha)
      in if m_pShaderManager s then Inr (emit [ShaderSet g_LightColorName (UVec4 lightColor)] s)
         else Inr s)"

section \<open>The texture registry\<close>

text \<open>
  Reading \<open>a[i]\<close> from a C array: inside the array it is the element, outside it is
  undefined behaviour, modelled as the error \<open>IndexOutOfBounds\<close>.
\<close>

definition array_get :: "'a list \<Rightarrow> int \<Rightarrow> error + 'a" where
  "array_get a i = (if 0 \<le> i \<and> i < int (length a) then Inr (a ! nat i) else Inl IndexOutOfBounds)"

text \<open>
  \<open>FindTextureID\<close>: the range-based \<open>for\<close> visits every element of the array
  \<open>m_textureIDs\<close>, in order. The \<open>GLuint\<close> identifier is returned as an \<open>int\<close>.
\<close>

fun FindTextureID_scan :: "TEXTURE_INFO list \<Rightarrow> string \<Rightarrow> int" where
  "FindTextureID_scan [] tag' = - 1"
| "FindTextureID_scan (texture # rest) tag' =
     (if tag texture = tag' then sint (ID texture) else FindTextureID_scan rest tag')"

definition FindTextureID :: "SceneManager \<Rightarrow> string \<Rightarrow> int" where
  "FindTextureID s tag' = FindTextureID_scan (m_textureIDs s) tag'"

text \<open>\<open>FindTextureSlot\<close>: the loop \<open>for (int i = 0; i < m_loadedTextures; i++)\<close>.\<close>

function FindTextureSlot_loop :: "SceneManager \<Rightarrow> string \<Rightarrow> int \<Rightarrow> error + int" where
  "FindTextureSlot_loop s tag' i =
     (if i < m_loadedTextures s then
        (case array_get (m_textureIDs s) i of
           Inl e \<Rightarrow> Inl e
         | Inr texture \<Rightarrow>
             if tag texture = tag' then Inr i else FindTextureSlot_loop s tag' (i + 1))
      else Inr (- 1))"
  by pat_completeness auto
termination
  by (relation "measure (\<lambda>(s, tag', i). nat (m_loadedTextures s - i))") auto

definition FindTextureSlot :: "SceneManager \<Rightarrow> string \<Rightarrow> error + int" where
  "FindTextureSlot s tag' = FindTextureSlot_loop s tag' 0"

text \<open>
  What the platform answers: the image decoder's result for a file name (\<open>None\<close> when
  \<open>stbi_load\<close> returns a null pointer), the texture name that the \<open>n\<close>-th call of
  \<open>glGenTextures\<close> hands out and the clock value that the \<open>n\<close>-th call of \<open>glfwGetTime\<close>
  returns (both counted from 0, over the calls in the log).
\<close>

record image =
  width :: int
  height :: int
  colorChannels :: int

record platform =
  stbi_load :: "string \<Rightarrow> image option"
  glGenTextures :: "nat \<Rightarrow> GLuint"
  glfwGetTime :: "nat \<Rightarrow> real"

fun is_GlGenTextures :: "call \<Rightarrow> bool" where
  "is_GlGenTextures (GlGenTextures n) = True"
| "is_GlGenTextures c = False"

definition textures_generated :: "SceneManager \<Rightarrow> nat" where
  "textures_generated s = length (filter is_GlGenTextures (calls s))"

definition clock_reads :: "SceneManager \<Rightarrow> nat" where
  "clock_reads s = length (filter (\<lambda>c. c = GlfwGetTime) (calls s))"

definition CreateGLTexture ::
  "platform \<Rightarrow> string \<Rightarrow> string \<Rightarrow> SceneManager \<Rightarrow> error + (bool \<times> SceneManager)" where
  "CreateGLTexture pf filename tag' s =
     (let s1 = emit [StbiSetFlipVerticallyOnLoad True, StbiLoad filename] s in
      case stbi_load pf filename of
        Some img \<Rightarrow>
          (let textureID = glGenTextures pf (textures_generated s1);
               s2 = emit [CoutLoaded filename (width img) (height img) (colorChannels img),
                          GlGenTextures textureID, GlBindTexture textureID, GlTexParameters] s1
           in if colorChannels img = 3 \<or> colorChannels img = 4 then
                (let s3 = emit [GlTexImage2D (if colorChannels img = 3 then RGB else RGBA)
                                  (width img) (height img),
                                GlGenerateMipmap, StbiImageFree, GlBindTexture 0] s2;
                     n = m_loadedTextures s3
                 in if 0 \<le> n \<and> n < int (length (m_textureIDs s3)) then
                      (let a1 = (m_textureIDs s3)[nat n := (m_textureIDs s3 ! nat n)\<lparr>ID := textureID\<rparr>];
                           a2 = a1[nat n := (a1 ! nat n)\<lparr>tag := tag'\<rparr>]
                       in Inr (True, s3\<lparr>m_textureIDs := a2, m_loadedTextures := n + 1\<rparr>))
                    else Inl IndexOutOfBounds)
              else Inr (False, emit [CoutNotImplemented (colorChannels img)] s2))
      | None \<Rightarrow> Inr (False, emit [CoutCouldNotLoad filename] s1))"

text \<open>\<open>DestroyGLTextures\<close>: \<open>glDeleteTextures\<close> on each of the first \<open>m_loadedTextures\<close> entries.\<close>

function DestroyGLTextures_loop :: "int \<Rightarrow> SceneManager \<Rightarrow> error + SceneManager" where
  "DestroyGLTextures_loop i s =
     (if i < m_loadedTextures s then
        (case array_get (m_textureIDs s) i of
           Inl e \<Rightarrow> Inl e
         | Inr texture \<Rightarrow> DestroyGLTextures_loop (i + 1) (emit [GlDeleteTextures (ID texture)] s))
      else Inr s)"
  by pat_completeness auto
termination
  by (relation "measure (\<lambda>(i, s). nat (m_loadedTextures s - i))") (auto simp: emit_def)

definition DestroyGLTextures :: "SceneManager \<Rightarrow> error + SceneManager" where
  "DestroyGLTextures s = DestroyGLTextures_loop 0 s"

section \<open>SetShaderTexture\<close>

definition SetShaderTexture :: "string \<Rightarrow> SceneManager \<Rightarrow> error + SceneManager" where
  "SetShaderTexture textureTag s =
     (if m_pShaderManager s then
        (let s1 = emit [ShaderSet g_UseTextureName (UInt 1)] s in
         case FindTextureSlot s1 textureTag of
           Inl e \<Rightarrow> Inl e
         | Inr textureSlot \<Rightarrow>
             if textureSlot \<noteq> - 1 then
               (case array_get (m_textureIDs s1) textureSlot of
                  Inl e \<Rightarrow> Inl e
                | Inr texture \<Rightarrow>
                    Inr (emit [GlActiveTexture textureSlot, GlBindTexture (ID texture),
                               ShaderSet g_TextureValueName (USampler2D textureSlot)] s1))
             else Inr s1)
      else Inr s)"

section \<open>Light sources\<close>

text \<open>\<open>std::to_string\<close> on an \<open>int\<close>: the decimal digits, with a minus sign when negative.\<close>

definition digit_char :: "nat \<Rightarrow> char" where
  "digit_char d = ''0123456789'' ! d"

function string_of_nat :: "nat \<Rightarrow> string" where
  "string_of_nat n =
     (if n < 10 then [digit_char n] else string_of_nat (n div 10) @ [digit_char (n mod 10)])"
  by pat_completeness auto
termination
  by (relation "measure id") auto

definition to_string :: "int \<Rightarrow> string" where
  "to_string i = (if i < 0 then CHR ''-'' # string_of_nat (nat (- i)) else string_of_nat (nat i))"

definition light_uniforms :: "string \<Rightarrow> LIGHT_SOURCE \<Rightarrow> call list" where
  "light_uniforms lightIndex light =
     [ShaderSet (lightIndex @ ''position'') (UVec3 (position light)),
      ShaderSet (lightIndex @ ''ambientColor'') (UVec3 (ambientColor light)),
      ShaderSet (lightIndex @ ''diffuseColor'') (UVec3 (diffuseColor light)),
      ShaderSet (lightIndex @ ''specularColor'') (UVec3 (specularColor light)),
      ShaderSet (lightIndex @ ''focalStrength'') (UFloat (focalStrength light)),
      ShaderSet (lightIndex @ ''specularIntensity'') (UFloat (specularIntensity light))]"

definition SetLightSource :: "int \<Rightarrow> LIGHT_SOURCE \<Rightarrow> SceneManager \<Rightarrow> error + SceneManager" where
  "SetLightSource index light s =
     (if index < 0 \<or> index \<ge> 4 then Inr s
      else
        (let s1 = s\<lparr>m_lightSources := (m_lightSources s)[nat index := light]\<rparr>;
             lightIndex = ''lightSources['' @ to_string index @ ''].''
         in shader_call (light_uniforms lightIndex light) s1))"

section \<open>PrepareScene\<close>

definition do_calls :: "call list \<Rightarrow> SceneManager \<Rightarrow> error + SceneManager" where
  "do_calls cs s = Inr (emit cs s)"

text \<open>A call whose \<open>bool\<close> result the caller does not look at.\<close>

definition discard :: "error + (bool \<times> SceneManager) \<Rightarrow> error + SceneManager" where
  "discard r = (case r of Inl e \<Rightarrow> Inl e | Inr (b, s) \<Rightarrow> Inr s)"

definition light1 :: LIGHT_SOURCE where
  "light1 = \<lparr>position = (- 10, 50, - 20), ambientColor = (0.3, 0.15, 0),
             diffuseColor = (1, 0.6, 0), specularColor = (1, 0.6, 0),
             focalStrength = 0.2, specularIntensity = 0.2\<rparr>"

definition light2 :: LIGHT_SOURCE where
  "light2 = \<lparr>position = (- 8, 8, - 22), ambientColor = (0.3, 0.15, 0),
             diffuseColor = (1, 0.6, 0), specularColor = (1, 0.6, 0),
             focalStrength = 0.2, specularIntensity = 0.2\<rparr>"

definition light3 :: LIGHT_SOURCE where
  "light3 = \<lparr>position = (10, 9, - 18), ambientColor = (0.3, 0.15, 0),
             diffuseColor = (1, 0.6, 0), specularColor = (1, 0.6, 0),
             focalStrength = 0.2, specularIntensity = 0.2\<rparr>"

definition PrepareScene :: "platform \<Rightarrow> SceneManager \<Rightarrow> error + SceneManager" where
  "PrepareScene pf =
     seq [do_calls [LoadMesh Plane, LoadMesh Cylinder, LoadMesh Cone, LoadMesh Sphere],
          (\<lambda>s. discard (CreateGLTexture pf ''textures/bark.jpg'' ''bark'' s)),
          (\<lambda>s. discard (CreateGLTexture pf ''textures/grass.jpg'' ''grass'' s)),
          (\<lambda>s. discard (CreateGLTexture pf ''textures/water.jpg'' ''water'' s)),
          (\<lambda>s. discard (CreateGLTexture pf ''textures/leaves.jpg'' ''leaves'' s)),
          (\<lambda>s. discard (CreateGLTexture pf ''textures/sky.jpg'' ''sky'' s)),
          SetLightSource 0 light1,
          SetLightSource 1 light2,
          SetLightSource 2 light3]"

section \<open>RenderScene\<close>

text \<open>The body of \<open>for (int i = 0; i < 3; ++i)\<close> that pushes four fields of light \<open>i\<close>.\<close>

definition push_light :: "int \<Rightarrow> SceneManager \<Rightarrow> error + SceneManager" where
  "push_light i s =
     (let lightIndex = ''lightSources['' @ to_string i @ ''].'' in
      case array_get (m_lightSources s) i of
        Inl e \<Rightarrow> Inl e
      | Inr light \<Rightarrow>
          shader_call
            [ShaderSet (lightIndex @ ''position'') (UVec3 (position light)),
             ShaderSet (lightIndex @ ''ambientColor'') (UVec3 (ambientColor light)),
             ShaderSet (lightIndex @ ''diffuseColor'') (UVec3 (diffuseColor light)),
             ShaderSet (lightIndex @ ''specularColor'') (UVec3 (specularColor light))] s)"

text \<open>
  The model matrix of a tree part: \<open>translate * rotate(glfwGetTime(), Y) * scale\<close>, pushed
  with no null test.
\<close>

definition tree_matrix :: "real \<Rightarrow> vec3 \<Rightarrow> vec3 \<Rightarrow> mat4" where
  "tree_matrix t pos scaleXYZ =
     mat4_mul (mat4_mul (translate mat4_identity pos) (rotate mat4_identity t (0, 1, 0)))
       (scale mat4_identity scaleXYZ)"

definition push_tree_model :: "platform \<Rightarrow> vec3 \<Rightarrow> vec3 \<Rightarrow> SceneManager \<Rightarrow> error + SceneManager" where
  "push_tree_model pf pos scaleXYZ s =
     (let t = glfwGetTime pf (clock_reads s);
          s1 = emit [GlfwGetTime] s;
          model = tree_matrix t pos scaleXYZ
      in shader_call [ShaderSet ''model'' (UMat4 model)] s1)"

text \<open>The body of both tree loops: a trunk, then a canopy 1.5 above it.\<close>

definition draw_tree :: "platform \<Rightarrow> vec3 \<Rightarrow> SceneManager \<Rightarrow> error + SceneManager" where
  "draw_tree pf treePos =
     seq [push_tree_model pf treePos (0.5, 3, 0.5),
          SetShaderTexture ''bark'',
          SetTextureUVScale 1 1,
          do_calls [DrawMesh Cylinder],
          push_tree_model pf (vec3_add treePos (0, 1.5, 0)) (2, 3, 2),
          SetShaderTexture ''leaves'',
          SetTextureUVScale 1 1,
          do_calls [DrawMesh Cone]]"

definition treePositions :: "vec3 list" where
  "treePositions =
     [(10, - 1, 5), (15, - 1, 8), (18, - 1, 3),
      (- 10, - 1, 5), (- 15, - 1, 8), (- 18, - 1, 3),
      (10, - 1, - 5), (15, - 1, - 8), (18, - 1, - 3),
      (- 10, - 1, - 5), (- 15, - 1, - 8), (- 18, - 1, - 3)]"

definition additionalTreePositions :: "vec3 list" where
  "additionalTreePositions =
     [(- 3, - 1, 2), (3, - 1, - 2), (- 7, - 1, 3), (7, - 1, - 3),
      (- 2, - 1, - 4), (2, - 1, 4), (- 6, - 1, - 3), (6, - 1, 3),
      (15, - 1, 10), (- 15, - 1, - 10), (20, - 1, 12), (- 20, - 1, - 12)]"

text \<open>
  \<open>RenderScene\<close>, in the order of its statements: the GL state, the view position, the
  three lights and the shared material; then the objects drawn with \<open>SetTransformations\<close>
  (the local \<open>XrotationDegrees\<close> is 0 until the sky plane sets it to 90, the Y and Z
  angles are 0 throughout); then the two loops over tree positions; then the sky plane.
\<close>

definition render_setup :: "(SceneManager \<Rightarrow> error + SceneManager) list" where
  "render_setup =
     [do_calls [GlEnableDepthTest, GlDepthFuncLequal, GlClear],
      shader_call [ShaderUse],
      shader_call [ShaderSet g_ViewPosition (UVec3 (0, 0, 3))],
      push_light 0, push_light 1, push_light 2,
      shader_call [ShaderSet g_UseLightingName (UInt 1)],
      shader_call [ShaderSet g_MaterialAmbientColor (UVec3 (0.2, 0.2, 0.2))],
      shader_call [ShaderSet g_MaterialDiffuseColor (UVec3 (0.8, 0.8, 0.8))],
      shader_call [ShaderSet g_MaterialSpecularColor (UVec3 (1, 1, 1))],
      shader_call [ShaderSet g_MaterialShininess (UFloat 32)]]"

definition render_fixed_objects :: "(SceneManager \<Rightarrow> error + SceneManager) list" where
  "render_fixed_objects =
     [\<comment> \<open>Grass Floor Plane\<close>
      SetTransformations (25, 5, 36) 0 0 0 (0, - 1, 0),
      SetShaderTexture ''grass'',
      SetTextureUVScale 1 1,
      do_calls [DrawMesh Plane],
      \<comment> \<open>Water Plane\<close>
      SetTransformations (25, 1, 2) 0 0 0 (0, - 0.5, 0),
      SetShaderTexture ''water'',
      SetTextureUVScale 1 1,
      do_calls [DrawMesh Plane],
      \<comment> \<open>Sun 1, Sun 2, Sun 3\<close>
      SetTransformations (2, 2, 2) 0 0 0 (- 10, 10, - 20),
      SetShaderColor 1 0.5 0 1,
      do_calls [DrawMesh Sphere],
      SetTransformations (1.5, 1.5, 1.5) 0 0 0 (- 8, 8, - 22),
      SetShaderColor 1 0.5 0 1,
      do_calls [DrawMesh Sphere],
      SetTransformations (1, 1, 1) 0 0 0 (10, 9, - 18),
      SetShaderColor 1 0.5 0 1,
      do_calls [DrawMesh Sphere],
      \<comment> \<open>Mountain 1, Mountain 2, Mountain 3\<close>
      SetTransformations (10, 5, 10) 0 0 0 (- 10, 0, - 20),
      SetShaderColor 0.5 0.35 0.05 1,
      do_calls [DrawMesh Cone],
      SetTransformations (8, 4, 8) 0 0 0 (10, 0, - 15),
      SetShaderColor 0.55 0.4 0.1 1,
      do_calls [DrawMesh Cone],
      SetTransformations (12, 6, 12) 0 0 0 (0, 0, - 25),
      SetShaderColor 0.6 0.45 0.15 1,
      do_calls [DrawMesh Cone]]"

definition render_sky :: "(SceneManager \<Rightarrow> error + SceneManager) list" where
  "render_sky =
     [SetTransformations (25, 5, 10) 90 0 0 (0, 9, - 36),
      SetShaderTexture ''sky'',
      SetTextureUVScale 1 1,
      do_calls [DrawMesh Plane]]"

definition RenderScene :: "platform \<Rightarrow> SceneManager \<Rightarrow> error + SceneManager" where
  "RenderScene pf =
     seq (render_setup @ render_fixed_objects
          @ map (draw_tree pf) treePositions
          @ map (draw_tree pf) additionalTreePositions
          @ render_sky)"

section \<open>The view manager's frame update\<close>

text \<open>
  The class \<open>Camera\<close> is not among the sources: a camera is a value of a type \<open>'cam\<close>, and
  the members the view manager uses are taken as parameters.
\<close>

datatype Camera_Movement = FORWARD | BACKWARD | LEFT | RIGHT | UP | DOWN

record 'cam Camera_class =
  GetViewMatrix :: "'cam \<Rightarrow> mat4"
  Zoom :: "'cam \<Rightarrow> real"
  Position :: "'cam \<Rightarrow> vec3"
  ProcessKeyboard :: "Camera_Movement \<Rightarrow> real \<Rightarrow> 'cam \<Rightarrow> 'cam"

datatype key =
    GLFW_KEY_ESCAPE | GLFW_KEY_W | GLFW_KEY_S | GLFW_KEY_A | GLFW_KEY_D
  | GLFW_KEY_Q | GLFW_KEY_E | GLFW_KEY_P | GLFW_KEY_O

text \<open>
  The view manager: its shader manager pointer (non-null or not) and camera, the
  file-scope variables \<open>gDeltaTime\<close>, \<open>gLastFrame\<close> and \<open>bOrthographicProjection\<close> of
  ViewManager.cpp, and the log of the calls made. The first two fields are
  \<open>m_pShaderManager\<close> and \<open>m_Camera\<close> in the source.
\<close>

record 'cam ViewManager =
  vm_pShaderManager :: bool
  vm_Camera :: 'cam
  gDeltaTime :: real
  gLastFrame :: real
  bOrthographicProjection :: bool
  vm_calls :: "call list"

definition WINDOW_WIDTH :: int where "WINDOW_WIDTH = 1000"
definition WINDOW_HEIGHT :: int where "WINDOW_HEIGHT = 800"
definition g_ViewName :: string where "g_ViewName = ''view''"
definition g_ProjectionName :: string where "g_ProjectionName = ''projection''"

text \<open>One \<open>if (glfwGetKey(window, k) == GLFW_PRESS) ...\<close> statement.\<close>

definition when_pressed ::
  "(key \<Rightarrow> bool) \<Rightarrow> key \<Rightarrow> ('cam ViewManager \<Rightarrow> 'cam ViewManager) \<Rightarrow> 'cam ViewManager \<Rightarrow> 'cam ViewManager" where
  "when_pressed glfwGetKey k f v = (if glfwGetKey k then f v else v)"

definition move_camera ::
  "'cam Camera_class \<Rightarrow> Camera_Movement \<Rightarrow> 'cam ViewManager \<Rightarrow> 'cam ViewManager" where
  "move_camera C d v = v\<lparr>vm_Camera := ProcessKeyboard C d (gDeltaTime v) (vm_Camera v)\<rparr>"

definition ProcessKeyboardEvents ::
  "'cam Camera_class \<Rightarrow> (key \<Rightarrow> bool) \<Rightarrow> 'cam ViewManager \<Rightarrow> 'cam ViewManager" where
  "ProcessKeyboardEvents C glfwGetKey v =
     fold (\<lambda>f. f)
       [when_pressed glfwGetKey GLFW_KEY_ESCAPE
          (\<lambda>v. v\<lparr>vm_calls := vm_calls v @ [GlfwSetWindowShouldClose]\<rparr>),
        when_pressed glfwGetKey GLFW_KEY_W (move_camera C FORWARD),
        when_pressed glfwGetKey GLFW_KEY_S (move_camera C BACKWARD),
        when_pressed glfwGetKey GLFW_KEY_A (move_camera C LEFT),
        when_pressed glfwGetKey GLFW_KEY_D (move_camera C RIGHT),
        when_pressed glfwGetKey GLFW_KEY_Q (move_camera C UP),
        when_pressed glfwGetKey GLFW_KEY_E (move_camera C DOWN),
        when_pressed glfwGetKey GLFW_KEY_P (\<lambda>v. v\<lparr>bOrthographicProjection := False\<rparr>),
        when_pressed glfwGetKey GLFW_KEY_O (\<lambda>v. v\<lparr>bOrthographicProjection := True\<rparr>)]
       v"

text \<open>
  \<open>PrepareSceneView\<close>, given the value \<open>glfwGetTime\<close> returns in this frame and the
  keys that are down.
\<close>

definition frame_projection :: "'cam Camera_class \<Rightarrow> 'cam ViewManager \<Rightarrow> mat4" where
  "frame_projection C v =
     (if bOrthographicProjection v then
        (let orthoSize = 10 in ortho (- orthoSize) orthoSize (- orthoSize) orthoSize 0.1 100)
      else perspective (radians (Zoom C (vm_Camera v)))
             (real_of_int WINDOW_WIDTH / real_of_int WINDOW_HEIGHT) 0.1 100)"

definition PrepareSceneView ::
  "'cam Camera_class \<Rightarrow> real \<Rightarrow> (key \<Rightarrow> bool) \<Rightarrow> 'cam ViewManager \<Rightarrow> 'cam ViewManager" where
  "PrepareSceneView C currentFrame glfwGetKey v =
     (let v1 = v\<lparr>gDeltaTime := currentFrame - gLastFrame v, gLastFrame := currentFrame,
                 vm_calls := vm_calls v @ [GlfwGetTime]\<rparr>;
          v2 = ProcessKeyboardEvents C glfwGetKey v1;
          view = GetViewMatrix C (vm_Camera v2);
          projection = frame_projection C v2
      in if vm_pShaderManager v2 then
           v2\<lparr>vm_calls := vm_calls v2 @
                 [ShaderSet g_ViewName (UMat4 view),
                  ShaderSet g_ProjectionName (UMat4 projection),
                  ShaderSet ''viewPosition'' (UVec3 (Position C (vm_Camera v2)))]\<rparr>
         else v2)"

section \<open>Notions used to state the properties\<close>

text \<open>The standard homogeneous matrices, column by column.\<close>

definition translation_matrix :: "vec3 \<Rightarrow> mat4" where
  "translation_matrix p =
     (case p of (x, y, z) \<Rightarrow> ((1, 0, 0, 0), (0, 1, 0, 0), (0, 0, 1, 0), (x, y, z, 1)))"

definition rotation_x :: "real \<Rightarrow> mat4" where
  "rotation_x a = ((1, 0, 0, 0), (0, cos a, sin a, 0), (0, - sin a, cos a, 0), (0, 0, 0, 1))"

definition rotation_y :: "real \<Rightarrow> mat4" where
  "rotation_y a = ((cos a, 0, - sin a, 0), (0, 1, 0, 0), (sin a, 0, cos a, 0), (0, 0, 0, 1))"

definition rotation_z :: "real \<Rightarrow> mat4" where
  "rotation_z a = ((cos a, sin a, 0, 0), (- sin a, cos a, 0, 0), (0, 0, 1, 0), (0, 0, 0, 1))"

definition scaling_matrix :: "vec3 \<Rightarrow> mat4" where
  "scaling_matrix v =
     (case v of (x, y, z) \<Rightarrow> ((x, 0, 0, 0), (0, y, 0, 0), (0, 0, z, 0), (0, 0, 0, 1)))"

text \<open>
  The registered entries are the first \<open>m_loadedTextures\<close> ones. A registry is in order
  when the array has its 128 entries, the counter is within it, the entries past the
  counter are still as constructed, and there are 4 light slots: every state reached from
  the constructor without an error is so.
\<close>

definition registered :: "SceneManager \<Rightarrow> TEXTURE_INFO list" where
  "registered s = take (nat (m_loadedTextures s)) (m_textureIDs s)"

definition registry_ok :: "SceneManager \<Rightarrow> bool" where
  "registry_ok s =
     (length (m_textureIDs s) = 128 \<and> 0 \<le> m_loadedTextures s \<and> m_loadedTextures s \<le> 128 \<and>
      list_all (\<lambda>t. t = TEXTURE_INFO_new) (drop (nat (m_loadedTextures s)) (m_textureIDs s)) \<and>
      length (m_lightSources s) = 4)"

text \<open>The position of the first element that satisfies \<open>P\<close>.\<close>

fun first_index :: "('a \<Rightarrow> bool) \<Rightarrow> 'a list \<Rightarrow> nat option" where
  "first_index P [] = None"
| "first_index P (x # xs) =
     (if P x then Some 0 else map_option Suc (first_index P xs))"

definition first_registered :: "SceneManager \<Rightarrow> string \<Rightarrow> nat option" where
  "first_registered s tag' = first_index (\<lambda>t. tag t = tag') (registered s)"

text \<open>
  The draws of a log, each with what was pushed for it since the draw before: the last
  \<open>model\<close> matrix, and the last texture sampler or flat colour.
\<close>

datatype appearance = Texture int | Colour vec4

fun draw_steps ::
  "mat4 option \<Rightarrow> appearance option \<Rightarrow> call list \<Rightarrow> (mesh \<times> mat4 option \<times> appearance option) list" where
  "draw_steps tr ap [] = []"
| "draw_steps tr ap (DrawMesh m # cs) = (m, tr, ap) # draw_steps None None cs"
| "draw_steps tr ap (ShaderSet n (UMat4 M) # cs) =
     draw_steps (if n = ''model'' then Some M else tr) ap cs"
| "draw_steps tr ap (ShaderSet n (USampler2D k) # cs) =
     draw_steps tr (if n = ''objectTexture'' then Some (Texture k) else ap) cs"
| "draw_steps tr ap (ShaderSet n (UVec4 c) # cs) =
     draw_steps tr (if n = ''objectColor'' then Some (Colour c) else ap) cs"
| "draw_steps tr ap (c # cs) = draw_steps tr ap cs"

text \<open>A draw step without its matrix: the mesh, whether a matrix was pushed, the appearance.\<close>

definition step_summary :: "mesh \<times> mat4 option \<times> appearance option \<Rightarrow> mesh \<times> bool \<times> appearance option" where
  "step_summary d =
     (case d of (m, tr, ap) \<Rightarrow> (m, (case tr of None \<Rightarrow> False | Some M \<Rightarrow> True), ap))"

text \<open>
  The tree-part draws of a sequence of draws: from the first cylinder up to the next
  plane (trunks are the only cylinders, and the sky plane follows the trees).
\<close>

definition tree_part_draws :: "mesh list \<Rightarrow> mesh list" where
  "tree_part_draws ds = takeWhile (\<lambda>m. m \<noteq> Plane) (dropWhile (\<lambda>m. m \<noteq> Cylinder) ds)"

text \<open>A platform on which every image file decodes as a 1-by-1 RGB image.\<close>

definition example_platform :: platform where
  "example_platform =
     \<lparr>stbi_load = (\<lambda>f. Some \<lparr>width = 1, height = 1, colorChannels = 3\<rparr>),
      glGenTextures = (\<lambda>n. word_of_nat (Suc n)),
      glfwGetTime = (\<lambda>n. 0)\<rparr>"

text \<open>The scene manager's operations that push uniforms for one object or light.\<close>

datatype setter =
    CallSetTransformations vec3 real real real vec3
  | CallSetShaderColor real real real real
  | CallSetShaderTexture string
  | CallSetTextureUVScale real real
  | CallSetLightColor real real real real
  | CallSetLightSource int LIGHT_SOURCE

fun run_setter :: "setter \<Rightarrow> SceneManager \<Rightarrow> error + SceneManager" where
  "run_setter (CallSetTransformations sc rx ry rz pos) s = SetTransformations sc rx ry rz pos s"
| "run_setter (CallSetShaderColor r g b a) s = SetShaderColor r g b a s"
| "run_setter (CallSetShaderTexture t) s = SetShaderTexture t s"
| "run_setter (CallSetTextureUVScale u v) s = SetTextureUVScale u v s"
| "run_setter (CallSetLightColor r g b a) s = SetLightColor r g b a s"
| "run_setter (CallSetLightSource i L) s = SetLightSource i L s"

fun is_in_range_SetLightSource :: "setter \<Rightarrow> bool" where
  "is_in_range_SetLightSource (CallSetLightSource i L) = (0 \<le> i \<and> i < 4)"
| "is_in_range_SetLightSource c = False"

text \<open>What \<open>SetShaderTexture\<close> is to push for a tag: the flag, then the slot when there is one.\<close>

definition texture_calls :: "SceneManager \<Rightarrow> string \<Rightarrow> call list" where
  "texture_calls s t =
     ShaderSet ''bUseTexture'' (UInt 1) #
     (case first_registered s t of
        None \<Rightarrow> []
      | Some k \<Rightarrow> [GlActiveTexture (int k), GlBindTexture (ID (m_textureIDs s ! k)),
                   ShaderSet ''objectTexture'' (USampler2D (int k))])"

text \<open>
  A platform on which one file decodes as a one-channel image and no other file decodes,
  and a scene manager with one registered texture.
\<close>

definition failing_platform :: platform where
  "failing_platform =
     \<lparr>stbi_load = (\<lambda>f. if f = ''textures/grey.png''
                         then Some \<lparr>width = 2, height = 2, colorChannels = 1\<rparr> else None),
      glGenTextures = (\<lambda>n. word_of_nat (Suc n)),
      glfwGetTime = (\<lambda>n. 0)\<rparr>"

definition one_texture_scene :: SceneManager where
  "one_texture_scene =
     (SceneManager_new True)
       \<lparr>m_loadedTextures := 1,
        m_textureIDs := \<lparr>ID = 7, tag = ''grass''\<rparr> # replicate 127 TEXTURE_INFO_new\<rparr>"

text \<open>A camera that is just its zoom angle, and a view manager holding it.\<close>

definition example_camera :: "real Camera_class" where
  "example_camera =
     \<lparr>GetViewMatrix = (\<lambda>c. mat4_identity), Zoom = (\<lambda>c. c), Position = (\<lambda>c. (0, 5, 12)),
      ProcessKeyboard = (\<lambda>d dt c. c)\<rparr>"

definition example_view :: "real ViewManager" where
  "example_view =
     \<lparr>vm_pShaderManager = True, vm_Camera = 45, gDeltaTime = 0, gLastFrame = 0,
      bOrthographicProjection = False, vm_calls = []\<rparr>"

text \<open>
  An image file decodes on a platform when \<open>stbi_load\<close> returns an image with 3 or 4
  channels. The loads of a log are its mesh loads and image loads.
\<close>

definition decodes :: "platform \<Rightarrow> string \<Rightarrow> bool" where
  "decodes pf filename =
     (case stbi_load pf filename of
        None \<Rightarrow> False
      | Some img \<Rightarrow> colorChannels img = 3 \<or> colorChannels img = 4)"

fun is_load :: "call \<Rightarrow> bool" where
  "is_load (LoadMesh m) = True"
| "is_load (StbiLoad f) = True"
| "is_load c = False"

definition scene_loads :: "call list" where
  "scene_loads =
     [LoadMesh Plane, LoadMesh Cylinder, LoadMesh Cone, LoadMesh Sphere,
      StbiLoad ''textures/bark.jpg'', StbiLoad ''textures/grass.jpg'',
      StbiLoad ''textures/water.jpg'', StbiLoad ''textures/leaves.jpg'',
      StbiLoad ''textures/sky.jpg'']"

definition scene_files_decode :: "platform \<Rightarrow> bool" where
  "scene_files_decode pf =
     (decodes pf ''textures/bark.jpg'' \<and> decodes pf ''textures/grass.jpg'' \<and>
      decodes pf ''textures/water.jpg'' \<and> decodes pf ''textures/leaves.jpg'' \<and>
      decodes pf ''textures/sky.jpg'')"

text \<open>
  The appearance a resolved texture tag gives a draw, the state a run ends in, and the
  calls that \<open>RenderScene\<close> adds to the log.
\<close>

definition texture_of :: "SceneManager \<Rightarrow> string \<Rightarrow> appearance option" where
  "texture_of s t = map_option (\<lambda>k. Texture (int k)) (first_registered s t)"

definition the_scene :: "error + SceneManager \<Rightarrow> SceneManager" where
  "the_scene r = (case r of Inl e \<Rightarrow> SceneManager_new False | Inr s \<Rightarrow> s)"

definition RenderScene_calls :: "platform \<Rightarrow> SceneManager \<Rightarrow> call list" where
  "RenderScene_calls pf s = drop (length (calls s)) (calls (the_scene (RenderScene pf s)))"

text \<open>
  The log of one \<open>RenderScene\<close>, part by part, for a scene manager \<open>s\<close> with a shader
  manager: the setup, the eight objects placed by \<open>SetTransformations\<close>, the trees (the
  clock has been read \<open>n\<close> times before a tree), the sky plane.
\<close>

definition setup_light_calls :: "SceneManager \<Rightarrow> nat \<Rightarrow> call list" where
  "setup_light_calls s i =
     [ShaderSet (''lightSources['' @ [''0123'' ! i] @ ''].position'')
        (UVec3 (position (m_lightSources s ! i))),
      ShaderSet (''lightSources['' @ [''0123'' ! i] @ ''].ambientColor'')
        (UVec3 (ambientColor (m_lightSources s ! i))),
      ShaderSet (''lightSources['' @ [''0123'' ! i] @ ''].diffuseColor'')
        (UVec3 (diffuseColor (m_lightSources s ! i))),
      ShaderSet (''lightSources['' @ [''0123'' ! i] @ ''].specularColor'')
        (UVec3 (specularColor (m_lightSources s ! i)))]"

definition setup_calls :: "SceneManager \<Rightarrow> call list" where
  "setup_calls s =
     [GlEnableDepthTest, GlDepthFuncLequal, GlClear, ShaderUse,
      ShaderSet ''viewPos'' (UVec3 (0, 0, 3))]
     @ setup_light_calls s 0 @ setup_light_calls s 1 @ setup_light_calls s 2
     @ [ShaderSet ''bUseLighting'' (UInt 1),
        ShaderSet ''material.ambientColor'' (UVec3 (0.2, 0.2, 0.2)),
        ShaderSet ''material.diffuseColor'' (UVec3 (0.8, 0.8, 0.8)),
        ShaderSet ''material.specularColor'' (UVec3 (1, 1, 1)),
        ShaderSet ''material.shininess'' (UFloat 32)]"

definition textured_calls :: "SceneManager \<Rightarrow> mat4 \<Rightarrow> string \<Rightarrow> mesh \<Rightarrow> call list" where
  "textured_calls s M t m =
     ShaderSet ''model'' (UMat4 M) # texture_calls s t
     @ [ShaderSet ''UVscale'' (UVec2 (1, 1)), DrawMesh m]"

definition coloured_calls :: "mat4 \<Rightarrow> vec4 \<Rightarrow> mesh \<Rightarrow> call list" where
  "coloured_calls M c m =
     [ShaderSet ''model'' (UMat4 M), ShaderSet ''bUseTexture'' (UInt 0),
      ShaderSet ''objectColor'' (UVec4 c), DrawMesh m]"

definition fixed_object_calls :: "SceneManager \<Rightarrow> call list" where
  "fixed_object_calls s =
     textured_calls s (model_matrix (25, 5, 36) 0 0 0 (0, - 1, 0)) ''grass'' Plane
     @ textured_calls s (model_matrix (25, 1, 2) 0 0 0 (0, - 0.5, 0)) ''water'' Plane
     @ coloured_calls (model_matrix (2, 2, 2) 0 0 0 (- 10, 10, - 20)) (1, 0.5, 0, 1) Sphere
     @ coloured_calls (model_matrix (1.5, 1.5, 1.5) 0 0 0 (- 8, 8, - 22)) (1, 0.5, 0, 1) Sphere
     @ coloured_calls (model_matrix (1, 1, 1) 0 0 0 (10, 9, - 18)) (1, 0.5, 0, 1) Sphere
     @ coloured_calls (model_matrix (10, 5, 10) 0 0 0 (- 10, 0, - 20)) (0.5, 0.35, 0.05, 1) Cone
     @ coloured_calls (model_matrix (8, 4, 8) 0 0 0 (10, 0, - 15)) (0.55, 0.4, 0.1, 1) Cone
     @ coloured_calls (model_matrix (12, 6, 12) 0 0 0 (0, 0, - 25)) (0.6, 0.45, 0.15, 1) Cone"

definition tree_calls :: "platform \<Rightarrow> SceneManager \<Rightarrow> nat \<Rightarrow> vec3 \<Rightarrow> call list" where
  "tree_calls pf s n p =
     GlfwGetTime #
     textured_calls s (tree_matrix (glfwGetTime pf n) p (0.5, 3, 0.5)) ''bark'' Cylinder
     @ GlfwGetTime #
     textured_calls s (tree_matrix (glfwGetTime pf (Suc n)) (vec3_add p (0, 1.5, 0)) (2, 3, 2))
       ''leaves'' Cone"

fun trees_calls :: "platform \<Rightarrow> SceneManager \<Rightarrow> nat \<Rightarrow> vec3 list \<Rightarrow> call list" where
  "trees_calls pf s n [] = []"
| "trees_calls pf s n (p # ps) = tree_calls pf s n p @ trees_calls pf s (n + 2) ps"

definition sky_calls :: "SceneManager \<Rightarrow> call list" where
  "sky_calls s = textured_calls s (model_matrix (25, 5, 10) 90 0 0 (0, 9, - 36)) ''sky'' Plane"

definition render_calls :: "platform \<Rightarrow> SceneManager \<Rightarrow> call list" where
  "render_calls pf s =
     setup_calls s @ fixed_object_calls s
     @ trees_calls pf s (clock_reads s) treePositions
     @ trees_calls pf s (clock_reads s + 24) additionalTreePositions
     @ sky_calls s"

text \<open>The draws of the trees at the positions \<open>ps\<close>, the clock read \<open>n\<close> times before.\<close>

fun tree_draws ::
  "platform \<Rightarrow> SceneManager \<Rightarrow> nat \<Rightarrow> vec3 list \<Rightarrow> (mesh \<times> mat4 option \<times> appearance option) list" where
  "tree_draws pf s n [] = []"
| "tree_draws pf s n (p # ps) =
     (Cylinder, Some (tree_matrix (glfwGetTime pf n) p (0.5, 3, 0.5)), texture_of s ''bark'') #
     (Cone, Some (tree_matrix (glfwGetTime pf (Suc n)) (vec3_add p (0, 1.5, 0)) (2, 3, 2)),
        texture_of s ''leaves'') #
     tree_draws pf s (n + 2) ps"

text \<open>The draws of the eight objects placed by \<open>SetTransformations\<close> before the trees.\<close>

definition fixed_object_draws ::
  "appearance option \<Rightarrow> appearance option \<Rightarrow> (mesh \<times> mat4 option \<times> appearance option) list" where
  "fixed_object_draws grass water =
     [(Plane, Some (model_matrix (25, 5, 36) 0 0 0 (0, - 1, 0)), grass),
      (Plane, Some (model_matrix (25, 1, 2) 0 0 0 (0, - 0.5, 0)), water),
      (Sphere, Some (model_matrix (2, 2, 2) 0 0 0 (- 10, 10, - 20)), Some (Colour (1, 0.5, 0, 1))),
      (Sphere, Some (model_matrix (1.5, 1.5, 1.5) 0 0 0 (- 8, 8, - 22)),
         Some (Colour (1, 0.5, 0, 1))),
      (Sphere, Some (model_matrix (1, 1, 1) 0 0 0 (10, 9, - 18)), Some (Colour (1, 0.5, 0, 1))),
      (Cone, Some (model_matrix (10, 5, 10) 0 0 0 (- 10, 0, - 20)),
         Some (Colour (0.5, 0.35, 0.05, 1))),
      (Cone, Some (model_matrix (8, 4, 8) 0 0 0 (10, 0, - 15)),
         Some (Colour (0.55, 0.4, 0.1, 1))),
      (Cone, Some (model_matrix (12, 6, 12) 0 0 0 (0, 0, - 25)),
         Some (Colour (0.6, 0.45, 0.15, 1)))]"

section \<open>Facts about the model\<close>

declare FindTextureSlot_loop.simps [simp del]
declare DestroyGLTextures_loop.simps [simp del]
declare string_of_nat.simps [simp del]

subsection \<open>The composed transform\<close>

lemmas vec_defs = vec4_scale_def vec4_add_def mat4_apply_def mat4_mul_def mat4_identity_def

lemma translate_identity: "translate mat4_identity p = translation_matrix p"
  by (cases p) (simp add: translate_def translation_matrix_def vec_defs)

lemma scale_identity: "scale mat4_identity v = scaling_matrix v"
  by (cases v) (simp add: scale_def scaling_matrix_def vec_defs)

lemma rotate_identity_x: "rotate mat4_identity a (1, 0, 0) = rotation_x a"
  by (simp add: rotate_def rotation_x_def normalize_def vec_defs Let_def)

lemma rotate_identity_y: "rotate mat4_identity a (0, 1, 0) = rotation_y a"
  by (simp add: rotate_def rotation_y_def normalize_def vec_defs Let_def)

lemma rotate_identity_z: "rotate mat4_identity a (0, 0, 1) = rotation_z a"
  by (simp add: rotate_def rotation_z_def normalize_def vec_defs Let_def)

lemma mat4_mul_identity_left: "mat4_mul mat4_identity m = m"
  by (cases m) (auto simp: vec_defs)

lemma mat4_mul_identity_right: "mat4_mul m mat4_identity = m"
  by (cases m) (auto simp: vec_defs)

lemma model_matrix_product:
  "model_matrix sc rx ry rz pos =
     mat4_mul (mat4_mul (mat4_mul (mat4_mul (translation_matrix pos) (rotation_x (rx * pi / 180)))
       (rotation_y (ry * pi / 180))) (rotation_z (rz * pi / 180))) (scaling_matrix sc)"
  by (simp add: model_matrix_def translate_identity scale_identity rotate_identity_x
      rotate_identity_y rotate_identity_z radians_def)

lemma identity_factors:
  "translation_matrix (0, 0, 0) = mat4_identity"
  "rotation_x 0 = mat4_identity"
  "rotation_y 0 = mat4_identity"
  "rotation_z 0 = mat4_identity"
  "scaling_matrix (1, 1, 1) = mat4_identity"
  by (simp_all add: translation_matrix_def rotation_x_def rotation_y_def rotation_z_def
      scaling_matrix_def mat4_identity_def)

text \<open>
  Claim C1. For every scale vector, rotation angles in degrees and position,
  \<open>SetTransformations\<close> pushes as the uniform \<open>model\<close> exactly the product
  translation times rotation about X times rotation about Y times rotation about Z times
  scaling, the angles converted to radians (and pushes nothing else; with a null shader
  manager the guard skips the push). For scale \<open>(1,1,1)\<close>, angles 0 and position
  \<open>(0,0,0)\<close> the matrix is the identity, and with only the Y angle non-zero it is the pure
  rotation about Y.
\<close>

theorem SetTransformations_pushes_product:
  "SetTransformations sc rx ry rz pos s =
     Inr (if m_pShaderManager s
          then s\<lparr>calls := calls s @ [ShaderSet ''model'' (UMat4
                 (mat4_mul (mat4_mul (mat4_mul (mat4_mul (translation_matrix pos)
                    (rotation_x (rx * pi / 180))) (rotation_y (ry * pi / 180)))
                    (rotation_z (rz * pi / 180))) (scaling_matrix sc)))]\<rparr>
          else s) \<and>
   model_matrix (1, 1, 1) 0 0 0 (0, 0, 0) = mat4_identity \<and>
   model_matrix (1, 1, 1) 0 ry 0 (0, 0, 0) = rotation_y (ry * pi / 180)"
  by (simp add: SetTransformations_def emit_def g_ModelName_def model_matrix_product
      identity_factors mat4_mul_identity_left mat4_mul_identity_right)

subsection \<open>The texture registry\<close>

lemma emit_fields:
  "m_pShaderManager (emit cs s) = m_pShaderManager s"
  "m_loadedTextures (emit cs s) = m_loadedTextures s"
  "m_textureIDs (emit cs s) = m_textureIDs s"
  "m_lightSources (emit cs s) = m_lightSources s"
  "calls (emit cs s) = calls s @ cs"
  by (simp_all add: emit_def)

lemma emit_emit: "emit cs (emit ds s) = emit (ds @ cs) s"
  by (simp add: emit_def)

lemma emit_Nil: "emit [] s = s"
  by (simp add: emit_def)

lemma registered_emit: "registered (emit cs s) = registered s"
  by (simp add: registered_def emit_fields)

lemma registry_ok_emit: "registry_ok (emit cs s) = registry_ok s"
  by (simp add: registry_ok_def emit_fields)

lemma first_index_bound: "first_index P xs = Some k \<Longrightarrow> k < length xs \<and> P (xs ! k)"
  by (induction xs arbitrary: k) (auto split: if_splits)

lemma first_index_None: "first_index P xs = None \<longleftrightarrow> (\<forall>x \<in> set xs. \<not> P x)"
  by (induction xs) auto

lemma first_index_append:
  "first_index P (xs @ ys) =
     (case first_index P xs of Some k \<Rightarrow> Some k
      | None \<Rightarrow> map_option (\<lambda>k. length xs + k) (first_index P ys))"
proof (induction xs)
  case Nil
  show ?case by (cases "first_index P ys") auto
next
  case (Cons x xs)
  then show ?case by (cases "first_index P ys") (auto split: option.splits)
qed

lemma FindTextureSlot_loop_eq:
  "0 \<le> i \<Longrightarrow> m_loadedTextures s \<le> int (length (m_textureIDs s)) \<Longrightarrow>
   FindTextureSlot_loop s t i =
     Inr (case first_index (\<lambda>e. tag e = t) (drop (nat i) (registered s)) of
            None \<Rightarrow> - 1 | Some k \<Rightarrow> i + int k)"
proof (induction s t i rule: FindTextureSlot_loop.induct)
  case (1 s t i)
  show ?case
  proof (cases "i < m_loadedTextures s")
    case False
    then have "drop (nat i) (registered s) = []"
      by (simp add: registered_def)
    with False show ?thesis
      by (subst FindTextureSlot_loop.simps) simp
  next
    case True
    with "1.prems" have inb: "nat i < length (registered s)"
      by (simp add: registered_def)
    have get: "array_get (m_textureIDs s) i = Inr (m_textureIDs s ! nat i)"
      using True "1.prems" by (simp add: array_get_def)
    have nth: "registered s ! nat i = m_textureIDs s ! nat i"
      using True "1.prems" by (simp add: registered_def)
    have split: "drop (nat i) (registered s) =
        (m_textureIDs s ! nat i) # drop (nat (i + 1)) (registered s)"
      using Cons_nth_drop_Suc[OF inb, symmetric] nth "1.prems"(1)
      by (simp add: nat_add_distrib)
    show ?thesis
    proof (cases "tag (m_textureIDs s ! nat i) = t")
      case True
      with \<open>i < m_loadedTextures s\<close> get split show ?thesis
        by (subst FindTextureSlot_loop.simps) simp
    next
      case False
      have ih: "FindTextureSlot_loop s t (i + 1) =
          Inr (case first_index (\<lambda>e. tag e = t) (drop (nat (i + 1)) (registered s)) of
                 None \<Rightarrow> - 1 | Some k \<Rightarrow> i + 1 + int k)"
        using "1.IH"[OF True get False] "1.prems" by simp
      show ?thesis
        using True get False ih split
        by (subst FindTextureSlot_loop.simps) (simp split: option.splits)
    qed
  qed
qed

lemma FindTextureSlot_eq:
  "registry_ok s \<Longrightarrow>
   FindTextureSlot s t = Inr (case first_registered s t of None \<Rightarrow> - 1 | Some k \<Rightarrow> int k)"
  using FindTextureSlot_loop_eq[of 0 s t]
  by (simp add: FindTextureSlot_def first_registered_def registry_ok_def split: option.splits)

lemma FindTextureID_scan_eq:
  "FindTextureID_scan xs t =
     (case first_index (\<lambda>e. tag e = t) xs of None \<Rightarrow> - 1 | Some k \<Rightarrow> sint (ID (xs ! k)))"
  by (induction xs) (auto split: option.splits)

lemma first_registered_bound:
  "registry_ok s \<Longrightarrow> first_registered s t = Some k \<Longrightarrow>
   int k < m_loadedTextures s \<and> k < 128 \<and> tag (m_textureIDs s ! k) = t \<and> registered s ! k = m_textureIDs s ! k"
  by (auto simp: first_registered_def registered_def registry_ok_def dest!: first_index_bound)

lemma textures_split:
  "m_textureIDs s = registered s @ drop (nat (m_loadedTextures s)) (m_textureIDs s)"
  by (simp add: registered_def)

lemma FindTextureID_registered:
  assumes "registry_ok s" "first_registered s t = Some k"
  shows "FindTextureID s t = sint (ID (m_textureIDs s ! k))"
proof -
  have "first_index (\<lambda>e. tag e = t) (m_textureIDs s) = Some k"
    using assms(2) by (subst textures_split) (simp add: first_index_append first_registered_def)
  then show ?thesis
    by (simp add: FindTextureID_def FindTextureID_scan_eq)
qed

lemma FindTextureID_unregistered:
  assumes "registry_ok s" "first_registered s t = None"
  shows "FindTextureID s t =
     (if t = '''' \<and> m_loadedTextures s < 128 then 0 else - 1)"
proof -
  let ?rest = "drop (nat (m_loadedTextures s)) (m_textureIDs s)"
  have all: "list_all (\<lambda>e. e = TEXTURE_INFO_new) ?rest"
    using assms(1) by (simp add: registry_ok_def)
  have len: "length ?rest = 128 - nat (m_loadedTextures s)"
    using assms(1) by (simp add: registry_ok_def)
  have scan: "FindTextureID_scan (m_textureIDs s) t = FindTextureID_scan ?rest t"
    using assms(2)
    by (subst textures_split)
       (simp add: FindTextureID_scan_eq first_index_append first_registered_def
          split: option.splits add: nth_append)
  show ?thesis
  proof (cases "t = '''' \<and> m_loadedTextures s < 128")
    case True
    then obtain e es where "?rest = e # es"
      using len assms(1) by (cases ?rest) (auto simp: registry_ok_def)
    with all have "FindTextureID_scan ?rest [] = 0"
      by (simp add: TEXTURE_INFO_new_def)
    with True scan show ?thesis
      by (simp add: FindTextureID_def)
  next
    case False
    have "first_index (\<lambda>e. tag e = t) ?rest = None"
    proof (cases "t = ''''")
      case True
      with False len assms(1) have "?rest = []" by (simp add: registry_ok_def)
      then show ?thesis by simp
    next
      case False
      then show ?thesis using all
        by (auto simp: first_index_None list_all_iff TEXTURE_INFO_new_def)
    qed
    then have "FindTextureID_scan ?rest t = - 1"
      by (simp add: FindTextureID_scan_eq)
    with False scan show ?thesis
      by (simp add: FindTextureID_def)
  qed
qed

lemma SceneManager_new_ok: "registry_ok (SceneManager_new p)"
  by (simp add: registry_ok_def SceneManager_new_def list_all_iff)

text \<open>
  Claim C2, at the input where the code departs from it. On a freshly constructed scene
  manager no tag is registered, and the empty string is looked up: \<open>FindTextureSlot\<close>
  answers \<open>-1\<close>, but \<open>FindTextureID\<close>, whose loop runs over all 128 array entries and not
  only the registered ones, finds the unused first entry (tag empty, identifier 0) and
  answers \<open>0\<close>.
\<close>

theorem FindTextureID_empty_tag:
  "FindTextureID (SceneManager_new p) '''' = 0 \<and> FindTextureSlot (SceneManager_new p) '''' = Inr (- 1)"
proof -
  have none: "first_registered (SceneManager_new p) [] = None"
    by (simp add: first_registered_def registered_def SceneManager_new_def)
  have loaded: "m_loadedTextures (SceneManager_new p) = 0"
    by (simp add: SceneManager_new_def)
  show ?thesis
    using FindTextureID_unregistered[OF SceneManager_new_ok none]
      FindTextureSlot_eq[OF SceneManager_new_ok, of p "[]"] none loaded
    by simp
qed

subsection \<open>Light sources\<close>

lemma to_string_digits:
  "to_string 0 = ''0''" "to_string 1 = ''1''" "to_string 2 = ''2''" "to_string 3 = ''3''"
  by (simp_all add: to_string_def string_of_nat.simps digit_char_def)

lemma to_string_digit:
  "0 \<le> i \<Longrightarrow> i < 4 \<Longrightarrow> to_string i = [''0123'' ! nat i]"
proof -
  assume "0 \<le> i" "i < 4"
  then have "i = 0 \<or> i = 1 \<or> i = 2 \<or> i = 3" by arith
  then show ?thesis using to_string_digits by auto
qed

text \<open>
  Claim C3. For \<open>i\<close> in \<open>[0,4)\<close> and a shader manager present, \<open>SetLightSource i L\<close>
  stores \<open>L\<close> into slot \<open>i\<close> and pushes the six fields of \<open>L\<close>, in the order position,
  ambientColor, diffuseColor, specularColor, focalStrength, specularIntensity, under the
  names \<open>lightSources[i].<field>\<close>; for \<open>i\<close> outside \<open>[0,4)\<close> it returns normally with the
  state, light slots and log included, unchanged, whatever the shader manager.
\<close>

theorem SetLightSource_stores_and_pushes:
  "(m_pShaderManager s \<and> 0 \<le> i \<and> i < 4 \<longrightarrow>
      SetLightSource i L s =
        Inr (s\<lparr>m_lightSources := (m_lightSources s)[nat i := L],
               calls := calls s @
                 [ShaderSet (''lightSources['' @ [''0123'' ! nat i] @ ''].position'')
                    (UVec3 (position L)),
                  ShaderSet (''lightSources['' @ [''0123'' ! nat i] @ ''].ambientColor'')
                    (UVec3 (ambientColor L)),
                  ShaderSet (''lightSources['' @ [''0123'' ! nat i] @ ''].diffuseColor'')
                    (UVec3 (diffuseColor L)),
                  ShaderSet (''lightSources['' @ [''0123'' ! nat i] @ ''].specularColor'')
                    (UVec3 (specularColor L)),
                  ShaderSet (''lightSources['' @ [''0123'' ! nat i] @ ''].focalStrength'')
                    (UFloat (focalStrength L)),
                  ShaderSet (''lightSources['' @ [''0123'' ! nat i] @ ''].specularIntensity'')
                    (UFloat (specularIntensity L))]\<rparr>)) \<and>
   (i < 0 \<or> 4 \<le> i \<longrightarrow> SetLightSource i L s = Inr s)"
  by (auto simp: SetLightSource_def shader_call_def emit_def light_uniforms_def to_string_digit)

theorem SetLightSource_stores_and_pushes_witness:
  "SetLightSource 2 light3 (SceneManager_new True) =
     Inr ((SceneManager_new True)
          \<lparr>m_lightSources := [LIGHT_SOURCE_new, LIGHT_SOURCE_new, light3, LIGHT_SOURCE_new],
           calls :=
             [ShaderSet ''lightSources[2].position'' (UVec3 (10, 9, - 18)),
              ShaderSet ''lightSources[2].ambientColor'' (UVec3 (0.3, 0.15, 0)),
              ShaderSet ''lightSources[2].diffuseColor'' (UVec3 (1, 0.6, 0)),
              ShaderSet ''lightSources[2].specularColor'' (UVec3 (1, 0.6, 0)),
              ShaderSet ''lightSources[2].focalStrength'' (UFloat 0.2),
              ShaderSet ''lightSources[2].specularIntensity'' (UFloat 0.2)]\<rparr>) \<and>
   SetLightSource 4 light3 (SceneManager_new False) = Inr (SceneManager_new False) \<and>
   SetLightSource (- 1) light3 (SceneManager_new True) = Inr (SceneManager_new True)"
proof -
  have p: "m_pShaderManager (SceneManager_new True)" by (simp add: SceneManager_new_def)
  show ?thesis
    using SetLightSource_stores_and_pushes[of "SceneManager_new True" 2 light3]
      SetLightSource_stores_and_pushes[of "SceneManager_new False" 4 light3]
      SetLightSource_stores_and_pushes[of "SceneManager_new True" "- 1" light3] p
    by (simp add: SceneManager_new_def light3_def numeral_eq_Suc)
qed

subsection \<open>Failed texture loads\<close>

text \<open>
  Claim C4. When the image file cannot be decoded, or decodes with a channel count other
  than 3 and 4, \<open>CreateGLTexture\<close> returns \<open>false\<close> and the scene manager is as before
  except for its log of external calls: the counter \<open>m_loadedTextures\<close> and every entry of
  \<open>m_textureIDs\<close> keep their values.
\<close>

theorem CreateGLTexture_failure_keeps_registry:
  assumes "case stbi_load pf filename of None \<Rightarrow> True
           | Some img \<Rightarrow> colorChannels img \<noteq> 3 \<and> colorChannels img \<noteq> 4"
  shows "\<exists>cs. CreateGLTexture pf filename t s = Inr (False, s\<lparr>calls := calls s @ cs\<rparr>)"
  using assms
  by (auto simp: CreateGLTexture_def emit_def Let_def split: option.splits)

theorem CreateGLTexture_failure_witness:
  "(\<exists>cs. CreateGLTexture failing_platform ''textures/grey.png'' ''grey'' (SceneManager_new True) =
      Inr (False, (SceneManager_new True)\<lparr>calls := calls (SceneManager_new True) @ cs\<rparr>)) \<and>
   (\<exists>cs. CreateGLTexture failing_platform ''textures/none.jpg'' ''none'' (SceneManager_new True) =
      Inr (False, (SceneManager_new True)\<lparr>calls := calls (SceneManager_new True) @ cs\<rparr>))"
proof -
  have a: "case stbi_load failing_platform ''textures/grey.png'' of None \<Rightarrow> True
           | Some img \<Rightarrow> colorChannels img \<noteq> 3 \<and> colorChannels img \<noteq> 4"
    by (simp add: failing_platform_def)
  have b: "case stbi_load failing_platform ''textures/none.jpg'' of None \<Rightarrow> True
           | Some img \<Rightarrow> colorChannels img \<noteq> 3 \<and> colorChannels img \<noteq> 4"
    by (simp add: failing_platform_def)
  show ?thesis
    using CreateGLTexture_failure_keeps_registry[OF a] CreateGLTexture_failure_keeps_registry[OF b]
    by blast
qed

subsection \<open>SetShaderTexture\<close>

lemma SetShaderTexture_emit:
  assumes "m_pShaderManager s" "registry_ok s"
  shows "SetShaderTexture t s = Inr (emit (texture_calls s t) s)"
proof (cases "first_registered s t")
  case None
  then have "first_registered (emit [ShaderSet g_UseTextureName (UInt 1)] s) t = None"
    by (simp add: first_registered_def registered_emit)
  with None assms show ?thesis
    by (simp add: SetShaderTexture_def Let_def FindTextureSlot_eq registry_ok_emit
        texture_calls_def g_UseTextureName_def)
next
  case (Some k)
  then have fr: "first_registered (emit [ShaderSet g_UseTextureName (UInt 1)] s) t = Some k"
    by (simp add: first_registered_def registered_emit)
  from first_registered_bound[OF assms(2) Some] assms(2)
  have "array_get (m_textureIDs s) (int k) = Inr (m_textureIDs s ! k)"
    by (simp add: array_get_def registry_ok_def)
  with Some fr assms show ?thesis
    by (simp add: SetShaderTexture_def Let_def FindTextureSlot_eq registry_ok_emit
        emit_fields emit_emit texture_calls_def g_UseTextureName_def g_TextureValueName_def)
qed

text \<open>
  Claim C6. With a shader manager present and the registry in order, \<open>SetShaderTexture\<close>
  pushes \<open>bUseTexture = 1\<close> for every tag; when \<open>FindTextureSlot\<close> resolves the tag (to
  the first registered entry with it) it then binds that texture and pushes the slot as
  the sampler \<open>objectTexture\<close>; when the tag is unresolved it pushes nothing more, and
  returns normally.
\<close>

theorem SetShaderTexture_pushes:
  assumes "m_pShaderManager s" "registry_ok s"
  shows "FindTextureSlot s t = Inr (case first_registered s t of None \<Rightarrow> - 1 | Some k \<Rightarrow> int k) \<and>
     SetShaderTexture t s =
       Inr (s\<lparr>calls := calls s @ ShaderSet ''bUseTexture'' (UInt 1) #
              (case first_registered s t of
                 None \<Rightarrow> []
               | Some k \<Rightarrow> [GlActiveTexture (int k), GlBindTexture (ID (m_textureIDs s ! k)),
                            ShaderSet ''objectTexture'' (USampler2D (int k))])\<rparr>)"
  using SetShaderTexture_emit[OF assms] FindTextureSlot_eq[OF assms(2)]
  by (simp add: emit_def texture_calls_def)

subsection \<open>DestroyGLTextures\<close>

lemma DestroyGLTextures_loop_eq:
  "0 \<le> i \<Longrightarrow> m_loadedTextures s \<le> int (length (m_textureIDs s)) \<Longrightarrow>
   DestroyGLTextures_loop i s =
     Inr (emit (map (\<lambda>e. GlDeleteTextures (ID e)) (drop (nat i) (registered s))) s)"
proof (induction i s rule: DestroyGLTextures_loop.induct)
  case (1 i s)
  show ?case
  proof (cases "i < m_loadedTextures s")
    case False
    then have "drop (nat i) (registered s) = []"
      by (simp add: registered_def)
    with False show ?thesis
      by (subst DestroyGLTextures_loop.simps) (simp add: emit_Nil)
  next
    case True
    with "1.prems" have inb: "nat i < length (registered s)"
      by (simp add: registered_def)
    have get: "array_get (m_textureIDs s) i = Inr (m_textureIDs s ! nat i)"
      using True "1.prems" by (simp add: array_get_def)
    have nth: "registered s ! nat i = m_textureIDs s ! nat i"
      using True "1.prems" by (simp add: registered_def)
    have split: "drop (nat i) (registered s) =
        (m_textureIDs s ! nat i) # drop (nat (i + 1)) (registered s)"
      using Cons_nth_drop_Suc[OF inb, symmetric] nth "1.prems"(1)
      by (simp add: nat_add_distrib)
    have ih: "DestroyGLTextures_loop (i + 1) (emit [GlDeleteTextures (ID (m_textureIDs s ! nat i))] s) =
        Inr (emit (GlDeleteTextures (ID (m_textureIDs s ! nat i)) #
               map (\<lambda>e. GlDeleteTextures (ID e)) (drop (nat (i + 1)) (registered s))) s)"
      using "1.IH"[OF True get] "1.prems"
      by (simp add: emit_fields registered_emit emit_emit)
    show ?thesis
      using True get ih split
      by (subst DestroyGLTextures_loop.simps) simp
  qed
qed

text \<open>
  Claim C9. \<open>DestroyGLTextures\<close> calls \<open>glDeleteTextures\<close> on the identifier of every
  registered entry, in order, and changes nothing but the log: the counter and the
  entries keep their values, so afterwards a registered tag still resolves to its slot
  and to its (now stale) identifier.
\<close>

theorem DestroyGLTextures_keeps_registry:
  assumes "registry_ok s"
  shows "\<exists>s'. DestroyGLTextures s = Inr s' \<and>
     s' = s\<lparr>calls := calls s @ map (\<lambda>e. GlDeleteTextures (ID e)) (registered s)\<rparr> \<and>
     m_loadedTextures s' = m_loadedTextures s \<and> m_textureIDs s' = m_textureIDs s \<and>
     (\<forall>t k. first_registered s t = Some k \<longrightarrow>
        FindTextureID s' t = sint (ID (m_textureIDs s ! k)) \<and> FindTextureSlot s' t = Inr (int k))"
proof -
  let ?s' = "emit (map (\<lambda>e. GlDeleteTextures (ID e)) (registered s)) s"
  have run: "DestroyGLTextures s = Inr ?s'"
    using assms DestroyGLTextures_loop_eq[of 0 s]
    by (simp add: DestroyGLTextures_def registry_ok_def)
  have ok: "registry_ok ?s'"
    using assms by (simp add: registry_ok_emit)
  have fr: "first_registered ?s' t = first_registered s t" for t
    by (simp add: first_registered_def registered_emit)
  show ?thesis
    using run FindTextureID_registered[OF ok] FindTextureSlot_eq[OF ok] fr
    by (simp add: emit_fields emit_def)
qed

subsection \<open>Instances on a scene manager with one texture\<close>

lemma one_texture_scene_ok: "registry_ok one_texture_scene"
  by (simp add: one_texture_scene_def registry_ok_def SceneManager_new_def list_all_iff)

lemma one_texture_scene_first:
  "first_registered one_texture_scene ''grass'' = Some 0"
  "first_registered one_texture_scene ''rock'' = None"
  by (simp_all add: one_texture_scene_def first_registered_def registered_def SceneManager_new_def)

theorem SetShaderTexture_pushes_witness:
  "SetShaderTexture ''grass'' one_texture_scene =
     Inr (one_texture_scene\<lparr>calls :=
            [ShaderSet ''bUseTexture'' (UInt 1), GlActiveTexture 0, GlBindTexture 7,
             ShaderSet ''objectTexture'' (USampler2D 0)]\<rparr>) \<and>
   SetShaderTexture ''rock'' one_texture_scene =
     Inr (one_texture_scene\<lparr>calls := [ShaderSet ''bUseTexture'' (UInt 1)]\<rparr>)"
proof -
  have p: "m_pShaderManager one_texture_scene"
    by (simp add: one_texture_scene_def SceneManager_new_def)
  have c: "calls one_texture_scene = []" "m_textureIDs one_texture_scene ! 0 = \<lparr>ID = 7, tag = ''grass''\<rparr>"
    by (simp_all add: one_texture_scene_def SceneManager_new_def)
  show ?thesis
    using SetShaderTexture_pushes[OF p one_texture_scene_ok, of "''grass''"]
      SetShaderTexture_pushes[OF p one_texture_scene_ok, of "''rock''"]
    by (simp add: one_texture_scene_first c)
qed

theorem DestroyGLTextures_keeps_registry_witness:
  "DestroyGLTextures one_texture_scene = Inr (one_texture_scene\<lparr>calls := [GlDeleteTextures 7]\<rparr>) \<and>
   FindTextureID (one_texture_scene\<lparr>calls := [GlDeleteTextures 7]\<rparr>) ''grass'' = 7 \<and>
   FindTextureSlot (one_texture_scene\<lparr>calls := [GlDeleteTextures 7]\<rparr>) ''grass'' = Inr 0"
proof -
  have c: "calls one_texture_scene = []" "m_textureIDs one_texture_scene ! 0 = \<lparr>ID = 7, tag = ''grass''\<rparr>"
    "registered one_texture_scene = [\<lparr>ID = 7, tag = ''grass''\<rparr>]"
    by (simp_all add: one_texture_scene_def SceneManager_new_def registered_def)
  show ?thesis
    using DestroyGLTextures_keeps_registry[OF one_texture_scene_ok] one_texture_scene_first(1)
    by (auto simp: c)
qed

subsection \<open>The projection pushed by the frame update\<close>

lemma ProcessKeyboardEvents_fields:
  "vm_pShaderManager (ProcessKeyboardEvents C keys v) = vm_pShaderManager v"
  "bOrthographicProjection (ProcessKeyboardEvents C keys v) =
     (if keys GLFW_KEY_O then True else if keys GLFW_KEY_P then False
      else bOrthographicProjection v)"
  "vm_calls (ProcessKeyboardEvents C keys v) =
     vm_calls v @ (if keys GLFW_KEY_ESCAPE then [GlfwSetWindowShouldClose] else [])"
  by (simp_all add: ProcessKeyboardEvents_def when_pressed_def move_camera_def)

lemma ortho_frame:
  "ortho (- 10) 10 (- 10) 10 0.1 100 =
     ((1 / 10, 0, 0, 0), (0, 1 / 10, 0, 0), (0, 0, - 20 / 999, 0), (0, 0, - 1001 / 999, 1))"
  by (simp add: ortho_def)

text \<open>
  Claim C7. In every frame update with a shader manager present, the projection mode is
  the stored one unless P (perspective) or O (orthographic, which wins over P) is down,
  and the matrix pushed as \<open>projection\<close> is, in orthographic mode, the orthographic matrix
  with extent \<open>-10..10\<close> in X and Y, near plane 0.1 and far plane 100, and otherwise the
  perspective matrix with the camera's zoom, converted from degrees to radians, as field
  of view, aspect ratio 1000/800 and the same near and far planes.
\<close>

theorem PrepareSceneView_projection:
  assumes "vm_pShaderManager v"
  shows "bOrthographicProjection (PrepareSceneView C currentFrame keys v) =
       (if keys GLFW_KEY_O then True else if keys GLFW_KEY_P then False
        else bOrthographicProjection v) \<and>
     vm_calls (PrepareSceneView C currentFrame keys v) =
       vm_calls v @ [GlfwGetTime] @
       (if keys GLFW_KEY_ESCAPE then [GlfwSetWindowShouldClose] else []) @
       [ShaderSet ''view''
          (UMat4 (GetViewMatrix C (vm_Camera (PrepareSceneView C currentFrame keys v)))),
        ShaderSet ''projection''
          (UMat4 (if bOrthographicProjection (PrepareSceneView C currentFrame keys v)
                  then ortho (- 10) 10 (- 10) 10 0.1 100
                  else perspective
                         (Zoom C (vm_Camera (PrepareSceneView C currentFrame keys v)) * pi / 180)
                         (1000 / 800) 0.1 100)),
        ShaderSet ''viewPosition''
          (UVec3 (Position C (vm_Camera (PrepareSceneView C currentFrame keys v))))] \<and>
     ortho (- 10) 10 (- 10) 10 0.1 100 =
       ((1 / 10, 0, 0, 0), (0, 1 / 10, 0, 0), (0, 0, - 20 / 999, 0), (0, 0, - 1001 / 999, 1))"
  using assms
  by (simp add: PrepareSceneView_def Let_def ProcessKeyboardEvents_fields frame_projection_def
      g_ViewName_def g_ProjectionName_def radians_def WINDOW_WIDTH_def WINDOW_HEIGHT_def ortho_frame)

theorem PrepareSceneView_projection_witness:
  "vm_calls (PrepareSceneView example_camera 1 (\<lambda>k. k = GLFW_KEY_O) example_view) =
     [GlfwGetTime, ShaderSet ''view'' (UMat4 mat4_identity),
      ShaderSet ''projection'' (UMat4 (ortho (- 10) 10 (- 10) 10 0.1 100)),
      ShaderSet ''viewPosition'' (UVec3 (0, 5, 12))] \<and>
   vm_calls (PrepareSceneView example_camera 1 (\<lambda>k. False) example_view) =
     [GlfwGetTime, ShaderSet ''view'' (UMat4 mat4_identity),
      ShaderSet ''projection'' (UMat4 (perspective (45 * pi / 180) (1000 / 800) 0.1 100)),
      ShaderSet ''viewPosition'' (UVec3 (0, 5, 12))]"
proof -
  have p: "vm_pShaderManager example_view" by (simp add: example_view_def)
  have cam: "vm_Camera (PrepareSceneView example_camera t keys example_view) = 45" for t keys
    by (simp add: PrepareSceneView_def Let_def ProcessKeyboardEvents_def when_pressed_def
        move_camera_def example_camera_def example_view_def)
  show ?thesis
    using PrepareSceneView_projection[OF p, of example_camera 1 "\<lambda>k. k = GLFW_KEY_O"]
      PrepareSceneView_projection[OF p, of example_camera 1 "\<lambda>k. False"]
    by (simp add: cam) (simp add: example_camera_def example_view_def)
qed

subsection \<open>Null guards\<close>

lemma setter_guarded:
  "\<not> m_pShaderManager s \<Longrightarrow> \<not> is_in_range_SetLightSource c \<Longrightarrow> run_setter c s = Inr s"
  by (cases c)
     (auto simp: SetTransformations_def SetShaderColor_def SetShaderTexture_def
        SetTextureUVScale_def SetLightColor_def SetLightSource_def Let_def)

lemma setter_unguarded:
  "\<not> m_pShaderManager s \<Longrightarrow> is_in_range_SetLightSource c \<Longrightarrow>
   run_setter c s = Inl NullPointerDereference"
  by (cases c) (auto simp: SetLightSource_def Let_def shader_call_def)

lemma setter_with_shader:
  "m_pShaderManager s \<Longrightarrow> registry_ok s \<Longrightarrow> \<exists>s'. run_setter c s = Inr s'"
  by (cases c)
     (auto simp: SetTransformations_def SetShaderColor_def SetShaderTexture_emit
        SetTextureUVScale_def SetLightColor_def SetLightSource_def Let_def shader_call_def)

lemma RenderScene_null:
  "\<not> m_pShaderManager s \<Longrightarrow> RenderScene pf s = Inl NullPointerDereference"
  unfolding RenderScene_def render_setup_def
  by (simp add: do_calls_def shader_call_def emit_fields)

text \<open>
  Claim C10, as amended. Among the operations that push uniforms for one object or light
  (\<open>SetTransformations\<close>, \<open>SetShaderColor\<close>, \<open>SetShaderTexture\<close>, \<open>SetTextureUVScale\<close>,
  \<open>SetLightColor\<close>, \<open>SetLightSource\<close>), on a registry in order: with a null shader manager,
  \<open>SetLightSource\<close> with an index in \<open>[0,4)\<close> is the only one that dereferences the
  pointer, and every other call returns with the state unchanged, pushing nothing; with a
  non-null shader manager every one of them returns normally.
\<close>

theorem setters_null_guard:
  assumes "registry_ok s"
  shows "(run_setter c s = Inl NullPointerDereference \<longleftrightarrow>
            \<not> m_pShaderManager s \<and> is_in_range_SetLightSource c) \<and>
         (\<not> m_pShaderManager s \<and> \<not> is_in_range_SetLightSource c \<longrightarrow> run_setter c s = Inr s) \<and>
         (m_pShaderManager s \<longrightarrow> (\<exists>s'. run_setter c s = Inr s'))"
proof -
  consider (a) "m_pShaderManager s" | (b) "\<not> m_pShaderManager s" "is_in_range_SetLightSource c"
    | (c) "\<not> m_pShaderManager s" "\<not> is_in_range_SetLightSource c" by blast
  then show ?thesis
  proof cases
    case a
    with setter_with_shader[OF a assms, of c] show ?thesis by auto
  next
    case b
    with setter_unguarded[OF b] show ?thesis by auto
  next
    case c
    with setter_guarded[OF c] show ?thesis by auto
  qed
qed

theorem setters_null_guard_witness:
  "run_setter (CallSetLightSource 1 light1) (SceneManager_new False) =
     Inl NullPointerDereference \<and>
   run_setter (CallSetLightSource 4 light1) (SceneManager_new False) =
     Inr (SceneManager_new False) \<and>
   run_setter (CallSetShaderColor 1 0 0 1) (SceneManager_new False) =
     Inr (SceneManager_new False)"
proof -
  have n: "\<not> m_pShaderManager (SceneManager_new False)"
    by (simp add: SceneManager_new_def)
  show ?thesis
    using setters_null_guard[OF SceneManager_new_ok, of "CallSetLightSource 1 light1" False]
      setters_null_guard[OF SceneManager_new_ok, of "CallSetLightSource 4 light1" False]
      setters_null_guard[OF SceneManager_new_ok, of "CallSetShaderColor 1 0 0 1" False] n
    by simp
qed

text \<open>
  Claim C10 as stated fails: \<open>RenderScene\<close> pushes uniforms and calls the shader manager
  with no null test, so on a scene manager constructed with a null shader manager it
  dereferences the null pointer too.
\<close>

theorem RenderScene_null_shader:
  "RenderScene example_platform (SceneManager_new False) = Inl NullPointerDereference"
  by (rule RenderScene_null) (simp add: SceneManager_new_def)

subsection \<open>Successful texture loads and PrepareScene\<close>

lemma textures_generated_emit:
  "textures_generated (emit cs s) = textures_generated s + length (filter is_GlGenTextures cs)"
  by (simp add: textures_generated_def emit_fields)

lemma TEXTURE_INFO_set_both: "(r::TEXTURE_INFO)\<lparr>ID := a, tag := b\<rparr> = \<lparr>ID = a, tag = b\<rparr>"
  by (cases r) simp

lemma CreateGLTexture_registers:
  assumes "decodes pf f" "registry_ok s" "m_loadedTextures s < 128"
  shows "\<exists>s'. CreateGLTexture pf f t s = Inr (True, s') \<and> registry_ok s' \<and>
     m_pShaderManager s' = m_pShaderManager s \<and>
     m_loadedTextures s' = m_loadedTextures s + 1 \<and>
     registered s' = registered s @ [\<lparr>ID = glGenTextures pf (textures_generated s), tag = t\<rparr>] \<and>
     textures_generated s' = Suc (textures_generated s) \<and>
     m_lightSources s' = m_lightSources s \<and>
     filter is_load (calls s') = filter is_load (calls s) @ [StbiLoad f]"
proof -
  from assms(1) obtain img where img: "stbi_load pf f = Some img"
    and ch: "colorChannels img = 3 \<or> colorChannels img = 4"
    by (auto simp: decodes_def split: option.splits)
  let ?n = "nat (m_loadedTextures s)"
  let ?xs = "m_textureIDs s"
  let ?tid = "glGenTextures pf (textures_generated s)"
  let ?cs = "[StbiSetFlipVerticallyOnLoad True, StbiLoad f,
      CoutLoaded f (width img) (height img) (colorChannels img),
      GlGenTextures ?tid, GlBindTexture ?tid, GlTexParameters,
      GlTexImage2D (if colorChannels img = 3 then RGB else RGBA) (width img) (height img),
      GlGenerateMipmap, StbiImageFree, GlBindTexture 0]"
  let ?s' = "(emit ?cs s)\<lparr>m_textureIDs := ?xs[?n := \<lparr>ID = ?tid, tag = t\<rparr>],
                 m_loadedTextures := m_loadedTextures s + 1\<rparr>"
  from assms(2,3) have n: "?n < length ?xs" "0 \<le> m_loadedTextures s" "length ?xs = 128"
    by (simp_all add: registry_ok_def)
  have run: "CreateGLTexture pf f t s = Inr (True, ?s')"
    using img ch n assms(3)
    by (simp add: CreateGLTexture_def Let_def emit_fields emit_emit textures_generated_emit
        TEXTURE_INFO_set_both)
  have rest: "drop ?n ?xs = ?xs ! ?n # drop (Suc ?n) ?xs"
    using n(1) by (simp add: Cons_nth_drop_Suc)
  have ok: "registry_ok ?s'"
    using assms(2,3) n rest
    by (simp add: registry_ok_def emit_fields nat_add_distrib)
  have reg: "registered ?s' = registered s @ [\<lparr>ID = ?tid, tag = t\<rparr>]"
    using n by (simp add: registered_def emit_fields nat_add_distrib take_Suc_conv_app_nth)
  have gen: "textures_generated ?s' = Suc (textures_generated s)"
    by (simp add: textures_generated_def emit_fields)
  have lo: "filter is_load (calls ?s') = filter is_load (calls s) @ [StbiLoad f]"
    by (simp add: emit_fields)
  show ?thesis
    using run ok reg gen lo by (intro exI[of _ ?s']) (simp add: emit_fields)
qed

text \<open>
  The registry stays in order through every texture load that returns, and a load into a
  full registry writes past the array.
\<close>

lemma CreateGLTexture_keeps_order:
  assumes "registry_ok s" "CreateGLTexture pf f t s = Inr (b, s')"
  shows "registry_ok s'"
proof (cases "decodes pf f")
  case False
  then have "case stbi_load pf f of None \<Rightarrow> True
      | Some img \<Rightarrow> colorChannels img \<noteq> 3 \<and> colorChannels img \<noteq> 4"
    by (simp add: decodes_def split: option.splits)
  then have "\<exists>cs. CreateGLTexture pf f t s = Inr (False, emit cs s)"
    by (auto simp: CreateGLTexture_def emit_emit Let_def split: option.splits)
  with assms show ?thesis
    by (auto simp: registry_ok_emit)
next
  case True
  show ?thesis
  proof (cases "m_loadedTextures s < 128")
    case less: True
    from CreateGLTexture_registers[OF True assms(1) less, of t] assms(2)
    show ?thesis by auto
  next
    case False
    with assms(1) have "m_loadedTextures s = int (length (m_textureIDs s))"
      by (simp add: registry_ok_def)
    with True have "CreateGLTexture pf f t s = Inl IndexOutOfBounds"
      by (auto simp: CreateGLTexture_def decodes_def Let_def emit_fields split: option.splits)
    with assms(2) show ?thesis by simp
  qed
qed

lemma CreateGLTexture_full_registry:
  assumes "registry_ok s" "decodes pf f" "m_loadedTextures s = 128"
  shows "CreateGLTexture pf f t s = Inl IndexOutOfBounds"
  using assms
  by (auto simp: CreateGLTexture_def decodes_def registry_ok_def Let_def emit_fields
      split: option.splits)

lemma SetLightSource_emit:
  assumes "m_pShaderManager s" "0 \<le> i" "i < 4"
  shows "SetLightSource i L s =
     Inr (emit (light_uniforms (''lightSources['' @ to_string i @ ''].'') L)
            (s\<lparr>m_lightSources := (m_lightSources s)[nat i := L]\<rparr>))"
  using assms by (simp add: SetLightSource_def shader_call_def Let_def)

lemma is_load_light_uniforms: "filter is_load (light_uniforms p L) = []"
  by (simp add: light_uniforms_def)

lemma is_GlGenTextures_light_uniforms: "filter is_GlGenTextures (light_uniforms p L) = []"
  by (simp add: light_uniforms_def)

lemma SetLightSource_effect:
  assumes "m_pShaderManager s" "0 \<le> i" "i < 4" "registry_ok s"
  shows "\<exists>s'. SetLightSource i L s = Inr s' \<and> registry_ok s' \<and>
     m_pShaderManager s' \<and>
     m_loadedTextures s' = m_loadedTextures s \<and>
     registered s' = registered s \<and>
     textures_generated s' = textures_generated s \<and>
     m_lightSources s' = (m_lightSources s)[nat i := L] \<and>
     filter is_load (calls s') = filter is_load (calls s)"
  using assms
  by (simp add: SetLightSource_emit emit_fields registry_ok_def registered_def
      textures_generated_def emit_def is_load_light_uniforms is_GlGenTextures_light_uniforms)

lemma PrepareScene_effect:
  assumes files: "scene_files_decode pf" and sh: "m_pShaderManager s"
    and ok: "registry_ok s" and room: "m_loadedTextures s \<le> 123"
  shows "\<exists>s'. PrepareScene pf s = Inr s' \<and> registry_ok s' \<and> m_pShaderManager s' \<and>
     m_loadedTextures s' = m_loadedTextures s + 5 \<and>
     registered s' = registered s @
       [\<lparr>ID = glGenTextures pf (textures_generated s), tag = ''bark''\<rparr>,
        \<lparr>ID = glGenTextures pf (textures_generated s + 1), tag = ''grass''\<rparr>,
        \<lparr>ID = glGenTextures pf (textures_generated s + 2), tag = ''water''\<rparr>,
        \<lparr>ID = glGenTextures pf (textures_generated s + 3), tag = ''leaves''\<rparr>,
        \<lparr>ID = glGenTextures pf (textures_generated s + 4), tag = ''sky''\<rparr>] \<and>
     m_lightSources s' = (m_lightSources s)[0 := light1, 1 := light2, 2 := light3] \<and>
     filter is_load (calls s') = filter is_load (calls s) @ scene_loads"
proof -
  let ?s0 = "emit [LoadMesh Plane, LoadMesh Cylinder, LoadMesh Cone, LoadMesh Sphere] s"
  have d: "decodes pf ''textures/bark.jpg''" "decodes pf ''textures/grass.jpg''"
    "decodes pf ''textures/water.jpg''" "decodes pf ''textures/leaves.jpg''"
    "decodes pf ''textures/sky.jpg''"
    using files by (simp_all add: scene_files_decode_def)
  have ok0: "registry_ok ?s0" using ok by (simp add: registry_ok_emit)
  have lt0: "m_loadedTextures ?s0 < 128" using room by (simp add: emit_fields)
  obtain s1 where s1: "CreateGLTexture pf ''textures/bark.jpg'' ''bark'' ?s0 = Inr (True, s1)"
    "registry_ok s1" "m_pShaderManager s1 = m_pShaderManager ?s0"
    "m_loadedTextures s1 = m_loadedTextures ?s0 + 1"
    "registered s1 = registered ?s0 @ [\<lparr>ID = glGenTextures pf (textures_generated ?s0), tag = ''bark''\<rparr>]"
    "textures_generated s1 = Suc (textures_generated ?s0)"
    "m_lightSources s1 = m_lightSources ?s0"
    "filter is_load (calls s1) = filter is_load (calls ?s0) @ [StbiLoad ''textures/bark.jpg'']"
    using CreateGLTexture_registers[OF d(1) ok0 lt0, of "''bark''"] by blast
  have lt1: "m_loadedTextures s1 < 128" using room s1(4) by (simp add: emit_fields)
  obtain s2 where s2: "CreateGLTexture pf ''textures/grass.jpg'' ''grass'' s1 = Inr (True, s2)"
    "registry_ok s2" "m_pShaderManager s2 = m_pShaderManager s1"
    "m_loadedTextures s2 = m_loadedTextures s1 + 1"
    "registered s2 = registered s1 @ [\<lparr>ID = glGenTextures pf (textures_generated s1), tag = ''grass''\<rparr>]"
    "textures_generated s2 = Suc (textures_generated s1)"
    "m_lightSources s2 = m_lightSources s1"
    "filter is_load (calls s2) = filter is_load (calls s1) @ [StbiLoad ''textures/grass.jpg'']"
    using CreateGLTexture_registers[OF d(2) s1(2) lt1, of "''grass''"] by blast
  have lt2: "m_loadedTextures s2 < 128" using room s1(4) s2(4) by (simp add: emit_fields)
  obtain s3 where s3: "CreateGLTexture pf ''textures/water.jpg'' ''water'' s2 = Inr (True, s3)"
    "registry_ok s3" "m_pShaderManager s3 = m_pShaderManager s2"
    "m_loadedTextures s3 = m_loadedTextures s2 + 1"
    "registered s3 = registered s2 @ [\<lparr>ID = glGenTextures pf (textures_generated s2), tag = ''water''\<rparr>]"
    "textures_generated s3 = Suc (textures_generated s2)"
    "m_lightSources s3 = m_lightSources s2"
    "filter is_load (calls s3) = filter is_load (calls s2) @ [StbiLoad ''textures/water.jpg'']"
    using CreateGLTexture_registers[OF d(3) s2(2) lt2, of "''water''"] by blast
  have lt3: "m_loadedTextures s3 < 128" using room s1(4) s2(4) s3(4) by (simp add: emit_fields)
  obtain s4 where s4: "CreateGLTexture pf ''textures/leaves.jpg'' ''leaves'' s3 = Inr (True, s4)"
    "registry_ok s4" "m_pShaderManager s4 = m_pShaderManager s3"
    "m_loadedTextures s4 = m_loadedTextures s3 + 1"
    "registered s4 = registered s3 @ [\<lparr>ID = glGenTextures pf (textures_generated s3), tag = ''leaves''\<rparr>]"
    "textures_generated s4 = Suc (textures_generated s3)"
    "m_lightSources s4 = m_lightSources s3"
    "filter is_load (calls s4) = filter is_load (calls s3) @ [StbiLoad ''textures/leaves.jpg'']"
    using CreateGLTexture_registers[OF d(4) s3(2) lt3, of "''leaves''"] by blast
  have lt4: "m_loadedTextures s4 < 128"
    using room s1(4) s2(4) s3(4) s4(4) by (simp add: emit_fields)
  obtain s5 where s5: "CreateGLTexture pf ''textures/sky.jpg'' ''sky'' s4 = Inr (True, s5)"
    "registry_ok s5" "m_pShaderManager s5 = m_pShaderManager s4"
    "m_loadedTextures s5 = m_loadedTextures s4 + 1"
    "registered s5 = registered s4 @ [\<lparr>ID = glGenTextures pf (textures_generated s4), tag = ''sky''\<rparr>]"
    "textures_generated s5 = Suc (textures_generated s4)"
    "m_lightSources s5 = m_lightSources s4"
    "filter is_load (calls s5) = filter is_load (calls s4) @ [StbiLoad ''textures/sky.jpg'']"
    using CreateGLTexture_registers[OF d(5) s4(2) lt4, of "''sky''"] by blast
  have sh5: "m_pShaderManager s5"
    using sh s1(3) s2(3) s3(3) s4(3) s5(3) by (simp add: emit_fields)
  obtain s6 where s6: "SetLightSource 0 light1 s5 = Inr s6" "registry_ok s6" "m_pShaderManager s6"
    "m_loadedTextures s6 = m_loadedTextures s5" "registered s6 = registered s5"
    "m_lightSources s6 = (m_lightSources s5)[nat 0 := light1]"
    "filter is_load (calls s6) = filter is_load (calls s5)"
    using SetLightSource_effect[OF sh5 _ _ s5(2), of 0 light1] by auto
  obtain s7 where s7: "SetLightSource 1 light2 s6 = Inr s7" "registry_ok s7" "m_pShaderManager s7"
    "m_loadedTextures s7 = m_loadedTextures s6" "registered s7 = registered s6"
    "m_lightSources s7 = (m_lightSources s6)[nat 1 := light2]"
    "filter is_load (calls s7) = filter is_load (calls s6)"
    using SetLightSource_effect[OF s6(3) _ _ s6(2), of 1 light2] by auto
  obtain s8 where s8: "SetLightSource 2 light3 s7 = Inr s8" "registry_ok s8" "m_pShaderManager s8"
    "m_loadedTextures s8 = m_loadedTextures s7" "registered s8 = registered s7"
    "m_lightSources s8 = (m_lightSources s7)[nat 2 := light3]"
    "filter is_load (calls s8) = filter is_load (calls s7)"
    using SetLightSource_effect[OF s7(3) _ _ s7(2), of 2 light3] by auto
  have run: "PrepareScene pf s = Inr s8"
    by (simp add: PrepareScene_def do_calls_def discard_def s1(1) s2(1) s3(1) s4(1) s5(1)
        s6(1) s7(1) s8(1))
  have gen0: "textures_generated ?s0 = textures_generated s"
    by (simp add: textures_generated_emit)
  have reg: "registered s8 = registered s @
       [\<lparr>ID = glGenTextures pf (textures_generated s), tag = ''bark''\<rparr>,
        \<lparr>ID = glGenTextures pf (textures_generated s + 1), tag = ''grass''\<rparr>,
        \<lparr>ID = glGenTextures pf (textures_generated s + 2), tag = ''water''\<rparr>,
        \<lparr>ID = glGenTextures pf (textures_generated s + 3), tag = ''leaves''\<rparr>,
        \<lparr>ID = glGenTextures pf (textures_generated s + 4), tag = ''sky''\<rparr>]"
    by (simp add: s8(5) s7(5) s6(5) s5(5,6) s4(5,6) s3(5,6) s2(5,6) s1(5,6) gen0 registered_emit
        numeral_eq_Suc)
  have cnt: "m_loadedTextures s8 = m_loadedTextures s + 5"
    by (simp add: s8(4) s7(4) s6(4) s5(4) s4(4) s3(4) s2(4) s1(4) emit_fields)
  have li: "m_lightSources s8 = (m_lightSources s)[0 := light1, 1 := light2, 2 := light3]"
    by (simp add: s8(6) s7(6) s6(6) s5(7) s4(7) s3(7) s2(7) s1(7) emit_fields)
  have lo: "filter is_load (calls s8) = filter is_load (calls s) @ scene_loads"
    by (simp add: s8(7) s7(7) s6(7) s5(8) s4(8) s3(8) s2(8) s1(8) emit_fields scene_loads_def)
  show ?thesis
    using run s8(2,3) reg cnt li lo by blast
qed

text \<open>
  Claim C8. On a platform where the five texture files decode, and from a scene manager
  freshly constructed with a shader manager, one \<open>PrepareScene\<close> registers exactly the five
  textures tagged bark, grass, water, leaves, sky, in this order, and fills light slots 0,
  1 and 2; a second call loads the four meshes and the five image files again and
  registers five more entries, so the counter is 10 instead of 5 and the state differs.
\<close>

theorem PrepareScene_twice:
  assumes "scene_files_decode pf"
  shows "\<exists>s1 s2. PrepareScene pf (SceneManager_new True) = Inr s1 \<and>
     PrepareScene pf s1 = Inr s2 \<and> s2 \<noteq> s1 \<and>
     m_loadedTextures s1 = 5 \<and>
     map tag (registered s1) = [''bark'', ''grass'', ''water'', ''leaves'', ''sky''] \<and>
     m_lightSources s1 = [light1, light2, light3, LIGHT_SOURCE_new] \<and>
     filter is_load (calls s1) = scene_loads \<and>
     m_loadedTextures s2 = 10 \<and>
     m_loadedTextures s2 = 2 * m_loadedTextures s1 \<and>
     map tag (registered s2) =
       [''bark'', ''grass'', ''water'', ''leaves'', ''sky'',
        ''bark'', ''grass'', ''water'', ''leaves'', ''sky''] \<and>
     filter is_load (calls s2) = scene_loads @ scene_loads"
proof -
  let ?s = "SceneManager_new True"
  have sh: "m_pShaderManager ?s" and room: "m_loadedTextures ?s \<le> 123"
    and reg: "registered ?s = []" and lights: "m_lightSources ?s = replicate 4 LIGHT_SOURCE_new"
    and c: "calls ?s = []"
    by (simp_all add: SceneManager_new_def registered_def)
  from PrepareScene_effect[OF assms sh SceneManager_new_ok room]
  obtain s1 where s1: "PrepareScene pf ?s = Inr s1" "registry_ok s1" "m_pShaderManager s1"
    "m_loadedTextures s1 = m_loadedTextures ?s + 5"
    "map tag (registered s1) = map tag (registered ?s) @ [''bark'', ''grass'', ''water'', ''leaves'', ''sky'']"
    "m_lightSources s1 = (m_lightSources ?s)[0 := light1, 1 := light2, 2 := light3]"
    "filter is_load (calls s1) = filter is_load (calls ?s) @ scene_loads"
    by auto
  have five: "m_loadedTextures s1 = 5"
    using s1(4) by (simp add: SceneManager_new_def)
  then have room1: "m_loadedTextures s1 \<le> 123" by simp
  from PrepareScene_effect[OF assms s1(3) s1(2) room1]
  obtain s2 where s2: "PrepareScene pf s1 = Inr s2"
    "m_loadedTextures s2 = m_loadedTextures s1 + 5"
    "map tag (registered s2) = map tag (registered s1) @ [''bark'', ''grass'', ''water'', ''leaves'', ''sky'']"
    "filter is_load (calls s2) = filter is_load (calls s1) @ scene_loads"
    by auto
  have ne: "s2 \<noteq> s1" using s2(2) by auto
  have li: "m_lightSources s1 = [light1, light2, light3, LIGHT_SOURCE_new]"
    by (simp add: s1(6) lights numeral_eq_Suc)
  show ?thesis
    using s1(1) s2(1) ne five li s1(5,7) s2(2,3,4) reg c
    by (intro exI[of _ s1] exI[of _ s2]) simp
qed

theorem PrepareScene_twice_witness:
  "\<exists>s1 s2. PrepareScene example_platform (SceneManager_new True) = Inr s1 \<and>
     PrepareScene example_platform s1 = Inr s2 \<and> s2 \<noteq> s1 \<and>
     m_loadedTextures s1 = 5 \<and>
     map tag (registered s1) = [''bark'', ''grass'', ''water'', ''leaves'', ''sky''] \<and>
     m_lightSources s1 = [light1, light2, light3, LIGHT_SOURCE_new] \<and>
     filter is_load (calls s1) = scene_loads \<and>
     m_loadedTextures s2 = 10 \<and>
     m_loadedTextures s2 = 2 * m_loadedTextures s1 \<and>
     map tag (registered s2) =
       [''bark'', ''grass'', ''water'', ''leaves'', ''sky'',
        ''bark'', ''grass'', ''water'', ''leaves'', ''sky''] \<and>
     filter is_load (calls s2) = scene_loads @ scene_loads"
proof -
  have d: "scene_files_decode example_platform"
    by (simp add: scene_files_decode_def decodes_def example_platform_def)
  show ?thesis
    by (rule PrepareScene_twice[OF d])
qed

subsection \<open>The log of RenderScene\<close>

lemma seq_append:
  "seq (fs @ gs) s = (case seq fs s of Inl e \<Rightarrow> Inl e | Inr s' \<Rightarrow> seq gs s')"
  by (induction fs arbitrary: s) (auto split: sum.splits)

lemma first_registered_emit: "first_registered (emit cs s) t = first_registered s t"
  by (simp add: first_registered_def registered_emit)

lemma texture_calls_emit: "texture_calls (emit cs s) t = texture_calls s t"
  by (simp add: texture_calls_def first_registered_emit emit_fields cong: option.case_cong)

lemma texture_of_emit: "texture_of (emit cs s) t = texture_of s t"
  by (simp add: texture_of_def first_registered_emit)

lemma textured_calls_emit: "textured_calls (emit cs s) M t m = textured_calls s M t m"
  by (simp add: textured_calls_def texture_calls_emit)

lemma tree_calls_emit: "tree_calls pf (emit cs s) n p = tree_calls pf s n p"
  by (simp add: tree_calls_def textured_calls_emit)

lemma trees_calls_emit: "trees_calls pf (emit cs s) n ps = trees_calls pf s n ps"
  by (induction ps arbitrary: n) (simp_all add: tree_calls_emit)

lemma clock_reads_emit:
  "clock_reads (emit cs s) = clock_reads s + length (filter (\<lambda>c. c = GlfwGetTime) cs)"
  by (simp add: clock_reads_def emit_fields)

lemma no_clock_texture_calls: "filter (\<lambda>c. c = GlfwGetTime) (texture_calls s t) = []"
  by (simp add: texture_calls_def split: option.splits)

lemma no_clock_textured_calls: "filter (\<lambda>c. c = GlfwGetTime) (textured_calls s M t m) = []"
  by (simp add: textured_calls_def no_clock_texture_calls)

lemma no_clock_coloured_calls: "filter (\<lambda>c. c = GlfwGetTime) (coloured_calls M c m) = []"
  by (simp add: coloured_calls_def)

lemma no_clock_setup_calls: "filter (\<lambda>c. c = GlfwGetTime) (setup_calls s) = []"
  by (simp add: setup_calls_def setup_light_calls_def)

lemma no_clock_fixed_object_calls: "filter (\<lambda>c. c = GlfwGetTime) (fixed_object_calls s) = []"
  by (simp add: fixed_object_calls_def no_clock_textured_calls no_clock_coloured_calls)

lemma clock_tree_calls: "length (filter (\<lambda>c. c = GlfwGetTime) (tree_calls pf s n p)) = 2"
  by (simp add: tree_calls_def no_clock_textured_calls)

lemma clock_trees_calls:
  "length (filter (\<lambda>c. c = GlfwGetTime) (trees_calls pf s n ps)) = 2 * length ps"
  by (induction ps arbitrary: n) (simp_all add: clock_tree_calls)

lemma SetTransformations_emit:
  "m_pShaderManager s \<Longrightarrow>
   SetTransformations sc rx ry rz pos s =
     Inr (emit [ShaderSet ''model'' (UMat4 (model_matrix sc rx ry rz pos))] s)"
  by (simp add: SetTransformations_def g_ModelName_def)

lemma SetShaderColor_emit:
  "m_pShaderManager s \<Longrightarrow>
   SetShaderColor r g b a s =
     Inr (emit [ShaderSet ''bUseTexture'' (UInt 0), ShaderSet ''objectColor'' (UVec4 (r, g, b, a))] s)"
  by (simp add: SetShaderColor_def g_UseTextureName_def g_ColorValueName_def)

lemma SetTextureUVScale_emit:
  "m_pShaderManager s \<Longrightarrow>
   SetTextureUVScale u v s = Inr (emit [ShaderSet ''UVscale'' (UVec2 (u, v))] s)"
  by (simp add: SetTextureUVScale_def)

lemma push_tree_model_emit:
  "m_pShaderManager s \<Longrightarrow>
   push_tree_model pf pos sc s =
     Inr (emit [GlfwGetTime, ShaderSet ''model'' (UMat4
            (tree_matrix (glfwGetTime pf (clock_reads s)) pos sc))] s)"
  by (simp add: push_tree_model_def Let_def shader_call_def emit_fields emit_emit)

lemma textured_step:
  assumes "m_pShaderManager s" "registry_ok s"
  shows "seq (SetTransformations sc rx ry rz pos # SetShaderTexture t # SetTextureUVScale 1 1 #
              do_calls [DrawMesh m] # fs) s =
         seq fs (emit (textured_calls s (model_matrix sc rx ry rz pos) t m) s)"
  using assms
  by (simp add: SetTransformations_emit SetShaderTexture_emit SetTextureUVScale_emit do_calls_def
      emit_fields registry_ok_emit texture_calls_emit emit_emit textured_calls_def)

lemma coloured_step:
  assumes "m_pShaderManager s"
  shows "seq (SetTransformations sc rx ry rz pos # SetShaderColor r g b a #
              do_calls [DrawMesh m] # fs) s =
         seq fs (emit (coloured_calls (model_matrix sc rx ry rz pos) (r, g, b, a) m) s)"
  using assms
  by (simp add: SetTransformations_emit SetShaderColor_emit do_calls_def
      emit_fields emit_emit coloured_calls_def)

lemma render_fixed_objects_log:
  assumes "m_pShaderManager s" "registry_ok s"
  shows "seq render_fixed_objects s = Inr (emit (fixed_object_calls s) s)"
  unfolding render_fixed_objects_def fixed_object_calls_def
  using assms
  by (simp add: textured_step coloured_step emit_fields registry_ok_emit emit_emit
      textured_calls_emit del: seq.simps) simp

lemma render_sky_log:
  assumes "m_pShaderManager s" "registry_ok s"
  shows "seq render_sky s = Inr (emit (sky_calls s) s)"
  unfolding render_sky_def sky_calls_def
  using assms
  by (simp add: textured_step del: seq.simps) simp

lemma push_light_emit:
  assumes "m_pShaderManager s" "registry_ok s" "i < 4"
  shows "push_light (int i) s = Inr (emit (setup_light_calls s i) s)"
proof -
  have "i = 0 \<or> i = 1 \<or> i = 2 \<or> i = 3" using assms(3) by arith
  then have ts: "to_string (int i) = [''0123'' ! i]"
    using to_string_digits by auto
  have "array_get (m_lightSources s) (int i) = Inr (m_lightSources s ! i)"
    using assms by (simp add: array_get_def registry_ok_def)
  then show ?thesis
    using assms(1) ts by (simp add: push_light_def Let_def shader_call_def setup_light_calls_def)
qed

lemma setup_light_calls_emit: "setup_light_calls (emit cs s) i = setup_light_calls s i"
  by (simp add: setup_light_calls_def emit_fields)

lemma render_setup_log:
  assumes "m_pShaderManager s" "registry_ok s"
  shows "seq render_setup s = Inr (emit (setup_calls s) s)"
  unfolding render_setup_def setup_calls_def
  using assms push_light_emit[of _ 0] push_light_emit[of _ 1] push_light_emit[of _ 2]
  by (simp add: do_calls_def shader_call_def emit_fields registry_ok_emit emit_emit
      setup_light_calls_emit g_ViewPosition_def g_UseLightingName_def g_MaterialAmbientColor_def
      g_MaterialDiffuseColor_def g_MaterialSpecularColor_def g_MaterialShininess_def)

lemma draw_tree_log:
  assumes "m_pShaderManager s" "registry_ok s"
  shows "draw_tree pf p s = Inr (emit (tree_calls pf s (clock_reads s) p) s)"
  using assms
  by (simp add: draw_tree_def tree_calls_def textured_calls_def push_tree_model_emit
      SetShaderTexture_emit SetTextureUVScale_emit do_calls_def emit_fields registry_ok_emit
      texture_calls_emit emit_emit clock_reads_emit no_clock_texture_calls)

lemma trees_log:
  assumes "m_pShaderManager s" "registry_ok s"
  shows "seq (map (draw_tree pf) ps) s = Inr (emit (trees_calls pf s (clock_reads s) ps) s)"
  using assms
proof (induction ps arbitrary: s)
  case Nil
  then show ?case by (simp add: emit_Nil)
next
  case (Cons p ps)
  let ?s1 = "emit (tree_calls pf s (clock_reads s) p) s"
  have sh: "m_pShaderManager ?s1" and ok: "registry_ok ?s1"
    using Cons.prems by (simp_all add: emit_fields registry_ok_emit)
  have clk: "clock_reads ?s1 = clock_reads s + 2"
    by (simp add: clock_reads_emit clock_tree_calls)
  show ?case
    using Cons.IH[OF sh ok] draw_tree_log[OF Cons.prems, of pf p]
    by (simp add: clk trees_calls_emit emit_emit)
qed

lemma RenderScene_log:
  assumes "m_pShaderManager s" "registry_ok s"
  shows "RenderScene pf s = Inr (emit (render_calls pf s) s)"
proof -
  let ?s1 = "emit (setup_calls s) s"
  let ?s2 = "emit (fixed_object_calls s) ?s1"
  let ?s3 = "emit (trees_calls pf s (clock_reads s) treePositions) ?s2"
  let ?s4 = "emit (trees_calls pf s (clock_reads s + 24) additionalTreePositions) ?s3"
  have g1: "m_pShaderManager ?s1" "registry_ok ?s1"
    and g2: "m_pShaderManager ?s2" "registry_ok ?s2"
    and g3: "m_pShaderManager ?s3" "registry_ok ?s3"
    and g4: "m_pShaderManager ?s4" "registry_ok ?s4"
    using assms by (simp_all add: emit_fields registry_ok_emit)
  have c2: "clock_reads ?s2 = clock_reads s"
    by (simp add: clock_reads_emit no_clock_setup_calls no_clock_fixed_object_calls)
  have len: "length treePositions = 12" by (simp add: treePositions_def)
  have c3: "clock_reads ?s3 = clock_reads s + 24"
    by (simp add: clock_reads_emit no_clock_setup_calls no_clock_fixed_object_calls
        clock_trees_calls len)
  have 1: "seq render_setup s = Inr ?s1" by (rule render_setup_log[OF assms])
  have 2: "seq render_fixed_objects ?s1 = Inr ?s2"
    using render_fixed_objects_log[OF g1] by (simp add: fixed_object_calls_def textured_calls_emit)
  have 3: "seq (map (draw_tree pf) treePositions) ?s2 = Inr ?s3"
    using trees_log[OF g2, of pf treePositions] by (simp add: c2 trees_calls_emit)
  have 4: "seq (map (draw_tree pf) additionalTreePositions) ?s3 = Inr ?s4"
    using trees_log[OF g3, of pf additionalTreePositions] by (simp add: c3 trees_calls_emit)
  have 5: "seq render_sky ?s4 = Inr (emit (sky_calls s) ?s4)"
    using render_sky_log[OF g4] by (simp add: sky_calls_def textured_calls_emit)
  have "RenderScene pf s = Inr (emit (sky_calls s) ?s4)"
    by (simp add: RenderScene_def seq_append 1 2 3 4 5)
  then show ?thesis
    by (simp add: emit_emit render_calls_def)
qed

subsection \<open>The draws of RenderScene\<close>

lemma draw_steps_textured_calls:
  "draw_steps tr None (textured_calls s M t m @ rest) =
     (m, Some M, texture_of s t) # draw_steps None None rest"
  by (simp add: textured_calls_def texture_calls_def texture_of_def split: option.splits)

lemma draw_steps_coloured_calls:
  "draw_steps tr ap (coloured_calls M c m @ rest) =
     (m, Some M, Some (Colour c)) # draw_steps None None rest"
  by (simp add: coloured_calls_def)

lemma draw_steps_setup_calls:
  "draw_steps tr ap (setup_calls s @ rest) = draw_steps tr ap rest"
  by (simp add: setup_calls_def setup_light_calls_def)

lemma draw_steps_tree_calls:
  "draw_steps None None (tree_calls pf s n p @ rest) =
     (Cylinder, Some (tree_matrix (glfwGetTime pf n) p (0.5, 3, 0.5)), texture_of s ''bark'') #
     (Cone, Some (tree_matrix (glfwGetTime pf (Suc n)) (vec3_add p (0, 1.5, 0)) (2, 3, 2)),
        texture_of s ''leaves'') #
     draw_steps None None rest"
  by (simp add: tree_calls_def draw_steps_textured_calls)

lemma draw_steps_trees_calls:
  "draw_steps None None (trees_calls pf s n ps @ rest) =
     tree_draws pf s n ps @ draw_steps None None rest"
  by (induction ps arbitrary: n) (simp_all add: draw_steps_tree_calls)

lemma tree_draws_summary:
  "map step_summary (tree_draws pf s n ps) =
     concat (replicate (length ps)
       [(Cylinder, True, texture_of s ''bark''), (Cone, True, texture_of s ''leaves'')])"
  by (induction ps arbitrary: n) (simp_all add: step_summary_def)

lemma length_tree_draws: "length (tree_draws pf s n ps) = 2 * length ps"
  by (induction ps arbitrary: n) simp_all

lemma draw_steps_fixed_object_calls:
  "draw_steps None None (fixed_object_calls s @ rest) =
     fixed_object_draws (texture_of s ''grass'') (texture_of s ''water'')
     @ draw_steps None None rest"
  by (simp add: fixed_object_calls_def fixed_object_draws_def draw_steps_textured_calls
      draw_steps_coloured_calls)

lemma draw_steps_render_calls:
  "draw_steps None None (render_calls pf s) =
     fixed_object_draws (texture_of s ''grass'') (texture_of s ''water'')
     @ tree_draws pf s (clock_reads s) treePositions
     @ tree_draws pf s (clock_reads s + 24) additionalTreePositions
     @ [(Plane, Some (model_matrix (25, 5, 10) 90 0 0 (0, 9, - 36)), texture_of s ''sky'')]"
proof -
  have sky: "draw_steps None None (sky_calls s) =
      [(Plane, Some (model_matrix (25, 5, 10) 90 0 0 (0, 9, - 36)), texture_of s ''sky'')]"
    using draw_steps_textured_calls[of None s _ "''sky''" Plane "[]"]
    by (simp add: sky_calls_def)
  show ?thesis
    by (simp add: render_calls_def draw_steps_setup_calls draw_steps_fixed_object_calls
        draw_steps_trees_calls sky)
qed

lemma RenderScene_calls_eq:
  assumes "m_pShaderManager s" "registry_ok s"
  shows "RenderScene_calls pf s = render_calls pf s"
  by (simp add: RenderScene_calls_def RenderScene_log[OF assms] the_scene_def emit_fields)

lemma tree_counts: "length treePositions = 12" "length additionalTreePositions = 12"
  by (simp_all add: treePositions_def additionalTreePositions_def)

lemma prepared_textures:
  assumes "registered s =
       [\<lparr>ID = a, tag = ''bark''\<rparr>, \<lparr>ID = b, tag = ''grass''\<rparr>, \<lparr>ID = c, tag = ''water''\<rparr>,
        \<lparr>ID = d, tag = ''leaves''\<rparr>, \<lparr>ID = e, tag = ''sky''\<rparr>]"
  shows "texture_of s ''bark'' = Some (Texture 0)" "texture_of s ''grass'' = Some (Texture 1)"
    "texture_of s ''water'' = Some (Texture 2)" "texture_of s ''leaves'' = Some (Texture 3)"
    "texture_of s ''sky'' = Some (Texture 4)"
  by (simp_all add: texture_of_def first_registered_def assms)

text \<open>
  Claim C5, as amended. On a platform where the five texture files decode, one
  \<open>RenderScene\<close> after \<open>PrepareScene\<close> on a fresh scene manager (with a shader manager)
  returns normally, changes nothing but the log, and issues exactly 57 draws, each with a
  \<open>model\<close> matrix and a texture sampler or flat colour pushed for it since the draw
  before: the ground plane (texture slot 1, grass), the water plane (slot 2), three
  spheres in flat orange with scales 2, 1.5 and 1, three cones in shades of brown, then
  48 tree-part draws --- for each of the 12 + 12 positions a cylinder with the bark
  texture (slot 0) followed by a cone with the leaves texture (slot 3) --- and last the
  sky plane (slot 4), rotated by 90 degrees about X.
\<close>

theorem RenderScene_draws:
  assumes "scene_files_decode pf"
  shows "\<exists>s1 cs trees. PrepareScene pf (SceneManager_new True) = Inr s1 \<and>
     RenderScene pf s1 = Inr (s1\<lparr>calls := calls s1 @ cs\<rparr>) \<and>
     draw_steps None None cs =
       fixed_object_draws (Some (Texture 1)) (Some (Texture 2)) @ trees @
       [(Plane, Some (model_matrix (25, 5, 10) 90 0 0 (0, 9, - 36)), Some (Texture 4))] \<and>
     trees = tree_draws pf s1 (clock_reads s1) treePositions @
             tree_draws pf s1 (clock_reads s1 + 24) additionalTreePositions \<and>
     map step_summary trees =
       concat (replicate 24 [(Cylinder, True, Some (Texture 0)), (Cone, True, Some (Texture 3))]) \<and>
     length trees = 48 \<and> length (draw_steps None None cs) = 57"
proof -
  let ?s = "SceneManager_new True"
  have sh: "m_pShaderManager ?s" and room: "m_loadedTextures ?s \<le> 123"
    and reg: "registered ?s = []"
    by (simp_all add: SceneManager_new_def registered_def)
  from PrepareScene_effect[OF assms sh SceneManager_new_ok room]
  obtain s1 a b c d e where s1: "PrepareScene pf ?s = Inr s1" "registry_ok s1" "m_pShaderManager s1"
    "registered s1 =
       [\<lparr>ID = a, tag = ''bark''\<rparr>, \<lparr>ID = b, tag = ''grass''\<rparr>, \<lparr>ID = c, tag = ''water''\<rparr>,
        \<lparr>ID = d, tag = ''leaves''\<rparr>, \<lparr>ID = e, tag = ''sky''\<rparr>]"
    unfolding reg by auto
  note tex = prepared_textures[OF s1(4)]
  let ?trees = "tree_draws pf s1 (clock_reads s1) treePositions @
             tree_draws pf s1 (clock_reads s1 + 24) additionalTreePositions"
  have run: "RenderScene pf s1 = Inr (s1\<lparr>calls := calls s1 @ render_calls pf s1\<rparr>)"
    using RenderScene_log[OF s1(3,2), of pf] by (simp add: emit_def)
  have ds: "draw_steps None None (render_calls pf s1) =
       fixed_object_draws (Some (Texture 1)) (Some (Texture 2)) @ ?trees @
       [(Plane, Some (model_matrix (25, 5, 10) 90 0 0 (0, 9, - 36)), Some (Texture 4))]"
    by (simp add: draw_steps_render_calls tex)
  have su: "map step_summary ?trees =
       concat (replicate 24 [(Cylinder, True, Some (Texture 0)), (Cone, True, Some (Texture 3))])"
  proof -
    have "replicate 24 x = replicate 12 x @ replicate 12 x" for x :: "(mesh \<times> bool \<times> appearance option) list"
      using replicate_add[of 12 12 x] by simp
    then show ?thesis
      by (simp add: tree_draws_summary tree_counts tex)
  qed
  have len: "length ?trees = 48"
    by (simp add: length_tree_draws tree_counts)
  have tot: "length (draw_steps None None (render_calls pf s1)) = 57"
    by (simp add: ds length_tree_draws tree_counts fixed_object_draws_def)
  show ?thesis
    using s1(1) run ds su len tot by blast
qed

lemma example_platform_decodes: "scene_files_decode example_platform"
  by (simp add: scene_files_decode_def decodes_def example_platform_def)

theorem RenderScene_draws_witness:
  "\<exists>s1 cs trees. PrepareScene example_platform (SceneManager_new True) = Inr s1 \<and>
     RenderScene example_platform s1 = Inr (s1\<lparr>calls := calls s1 @ cs\<rparr>) \<and>
     draw_steps None None cs =
       fixed_object_draws (Some (Texture 1)) (Some (Texture 2)) @ trees @
       [(Plane, Some (model_matrix (25, 5, 10) 90 0 0 (0, 9, - 36)), Some (Texture 4))] \<and>
     trees = tree_draws example_platform s1 (clock_reads s1) treePositions @
             tree_draws example_platform s1 (clock_reads s1 + 24) additionalTreePositions \<and>
     map step_summary trees =
       concat (replicate 24 [(Cylinder, True, Some (Texture 0)), (Cone, True, Some (Texture 3))]) \<and>
     length trees = 48 \<and> length (draw_steps None None cs) = 57"
  by (rule RenderScene_draws[OF example_platform_decodes])

lemma tree_draws_meshes:
  "map fst (tree_draws pf s n ps) = concat (replicate (length ps) [Cylinder, Cone])"
  by (induction ps arbitrary: n) simp_all

text \<open>
  Claim C5 as stated fails in its count of tree-part draws: between the last mountain and
  the sky plane the code issues 48 draws (a trunk and a canopy for each of the 24
  positions), not 24.
\<close>

theorem RenderScene_tree_part_draws:
  "length (tree_part_draws (map fst (draw_steps None None
     (RenderScene_calls example_platform
        (the_scene (PrepareScene example_platform (SceneManager_new True))))))) = 48 \<and>
   length (tree_part_draws (map fst (draw_steps None None
     (RenderScene_calls example_platform
        (the_scene (PrepareScene example_platform (SceneManager_new True))))))) \<noteq> 24"
proof -
  let ?s = "SceneManager_new True"
  have sh: "m_pShaderManager ?s" and room: "m_loadedTextures ?s \<le> 123"
    by (simp_all add: SceneManager_new_def)
  from PrepareScene_effect[OF example_platform_decodes sh SceneManager_new_ok room]
  obtain s1 where s1: "PrepareScene example_platform ?s = Inr s1" "registry_ok s1"
    "m_pShaderManager s1"
    by auto
  have sc: "the_scene (PrepareScene example_platform ?s) = s1"
    by (simp add: s1(1) the_scene_def)
  have "map fst (draw_steps None None (RenderScene_calls example_platform s1)) =
      [Plane, Plane, Sphere, Sphere, Sphere, Cone, Cone, Cone]
      @ concat (replicate 12 [Cylinder, Cone]) @ concat (replicate 12 [Cylinder, Cone]) @ [Plane]"
    by (simp add: RenderScene_calls_eq[OF s1(3,2)] draw_steps_render_calls tree_draws_meshes
        tree_counts fixed_object_draws_def)
  then have "length (tree_part_draws
      (map fst (draw_steps None None (RenderScene_calls example_platform s1)))) = 48"
    by (simp add: tree_part_draws_def numeral_eq_Suc)
  then show ?thesis
    by (simp add: sc)
qed

end
